theory Spec2Isabelle
  imports Complex_Main
begin

section \<open>Exceptions and text\<close>

text \<open>
  The exceptions the three device programs and the Azure function can meet. Each
  \<^verbatim>\<open>raise\<close> of the source is an \<open>Inl\<close> value of the model.
\<close>

datatype error = UnicodeDecodeError | ParseError | TypeError | ValueError | KeyError

text \<open>
  Python's \<^verbatim>\<open>str.strip()\<close> removes leading and trailing whitespace. A \<open>string\<close> is a
  list of characters with code points below 256 (NMEA data is ASCII); the whitespace
  code points in that range are 9 to 13, 28 to 32, 133 and 160.
\<close>

definition isspace :: "char \<Rightarrow> bool" where
  "isspace c =
     (let n = (of_char c :: nat)
      in (9 \<le> n \<and> n \<le> 13) \<or> (28 \<le> n \<and> n \<le> 32) \<or> n = 133 \<or> n = 160)"

definition strip :: "string \<Rightarrow> string" where
  "strip s = rev (dropWhile isspace (rev (dropWhile isspace s)))"


section \<open>The serial connection\<close>

text \<open>
  \<^verbatim>\<open>serial_conn.readline()\<close> returns one chunk of raw bytes, and every call site decodes
  it at once with \<^verbatim>\<open>.decode('utf-8')\<close>. A chunk is therefore modelled by what decoding
  makes of it: either the bytes are not valid UTF-8, or they are the encoding of a text.
  A read that times out returns the empty chunk, \<open>Encoded []\<close>.
\<close>

datatype rawline = Undecodable | Encoded string

definition decode_utf8 :: "rawline \<Rightarrow> error + string" where
  "decode_utf8 b = (case b of Undecodable \<Rightarrow> Inl UnicodeDecodeError | Encoded t \<Rightarrow> Inr t)"

text \<open>
  The state the programs act on. \<open>wire\<close> is the sequence of chunks the port delivers,
  \<open>cursor\<close> the index of the chunk the next \<^verbatim>\<open>readline()\<close> returns, \<open>in_waiting\<close> how
  many chunks, from the cursor on, already sit in the input buffer. The last three
  fields record effects: the arguments given to \<^verbatim>\<open>pynmea2.parse\<close>, the lines printed by
  \<^verbatim>\<open>print-gps-data\<close>, and the message bodies sent to the IoT hub.
\<close>

text \<open>
  The values a satellite count takes in the programs: the sentinel's would be a number,
  the field \<^verbatim>\<open>num_sats\<close> of a parsed sentence is the text of the field, and the code
  passes it on as it is.
\<close>

datatype pyval = PyInt int | PyStr string

datatype json =
    JNumber real
  | JInt int
  | JString string
  | JArray "json list"
  | JObject "(string \<times> json) list"

record world =
  wire :: "nat \<Rightarrow> rawline"
  cursor :: nat
  in_waiting :: nat
  parse_log :: "string list"
  stdout :: "string list"
  telemetry :: "json list"

definition readline :: "world \<Rightarrow> rawline \<times> world" where
  "readline w =
     (wire w (cursor w), w\<lparr>cursor := cursor w + 1, in_waiting := in_waiting w - 1\<rparr>)"

text \<open>\<^verbatim>\<open>serial_conn.readline().decode('utf-8')\<close>\<close>

definition read_decoded :: "world \<Rightarrow> (error + string) \<times> world" where
  "read_decoded w = (case readline w of (b, w') \<Rightarrow> (decode_utf8 b, w'))"

text \<open>
  \<^verbatim>\<open>reset_input_buffer()\<close> throws away what is buffered; \<^verbatim>\<open>flush()\<close> waits for pending
  output and leaves the input alone.
\<close>

definition reset_input_buffer :: "world \<Rightarrow> world" where
  "reset_input_buffer w = w\<lparr>cursor := cursor w + in_waiting w, in_waiting := 0\<rparr>"

definition flush_output :: "world \<Rightarrow> world" where
  "flush_output w = w"


section \<open>\<^verbatim>\<open>flush_serial\<close>\<close>

text \<open>
  \<^verbatim>\<open>decode-gps-data/app.py\<close> and \<^verbatim>\<open>send-gps-data/app.py\<close>: the loop
  \<^verbatim>\<open>while not line\<close> goes on while the line is \<^verbatim>\<open>None\<close> or empty. It has no bound, so it
  is a partial function: \<open>None\<close> is the loop that never ends.
\<close>

partial_function (option) flush_loop :: "world \<Rightarrow> ((error + unit) \<times> world) option" where
  "flush_loop w =
     (case read_decoded w of
        (Inl e, w') \<Rightarrow> (if e = UnicodeDecodeError then flush_loop w' else Some (Inl e, w'))
      | (Inr t, w') \<Rightarrow> (if strip t = [] then flush_loop w' else Some (Inr (), w')))"

definition flush_serial :: "world \<Rightarrow> ((error + unit) \<times> world) option" where
  "flush_serial w = flush_loop (flush_output (reset_input_buffer w))"

text \<open>
  \<^verbatim>\<open>print-gps-data/app.py\<close>: the loop \<^verbatim>\<open>while read_line is None\<close> ends at the first chunk
  that decodes, empty or not, and the line is not stripped.
\<close>

partial_function (option) print_flush_loop :: "world \<Rightarrow> ((error + unit) \<times> world) option" where
  "print_flush_loop w =
     (case read_decoded w of
        (Inl e, w') \<Rightarrow> (if e = UnicodeDecodeError then print_flush_loop w' else Some (Inl e, w'))
      | (Inr t, w') \<Rightarrow> Some (Inr (), w'))"

definition print_flush_serial :: "world \<Rightarrow> ((error + unit) \<times> world) option" where
  "print_flush_serial w = print_flush_loop (flush_output (reset_input_buffer w))"

text \<open>One turn of the \<^verbatim>\<open>while True\<close> loop of \<^verbatim>\<open>print-gps-data/app.py\<close>.\<close>

definition print_iteration :: "world \<Rightarrow> (error + unit) \<times> world" where
  "print_iteration w =
     (case read_decoded w of
        (Inl e, w') \<Rightarrow> (Inl e, w')
      | (Inr t, w') \<Rightarrow>
          (let line = strip t
           in if line \<noteq> [] then (Inr (), w'\<lparr>stdout := stdout w' @ [line]\<rparr>)
              else (Inr (), w')))"


section \<open>Sentences and coordinates\<close>

text \<open>
  \<^verbatim>\<open>pynmea2\<close> is a third-party package. Of a parsed sentence the programs read
  \<^verbatim>\<open>sentence_type\<close>, \<^verbatim>\<open>lat\<close>, \<^verbatim>\<open>lat_dir\<close>, \<^verbatim>\<open>lon\<close>, \<^verbatim>\<open>lon_dir\<close> and \<^verbatim>\<open>num_sats\<close>; the two
  coordinate fields are named \<open>nmea_lat\<close> and \<open>nmea_lon\<close> here, since \<open>lat\<close> and \<open>lon\<close>
  are the fields of \<open>LatLon\<close>. Each is the text of a field of the line; the code converts
  the two coordinates and passes \<^verbatim>\<open>num_sats\<close> on as it is. The parser itself is a parameter
  of the model: a function from a line to a sentence or to the exception it raises.
\<close>

record sentence =
  sentence_type :: string
  nmea_lat :: string
  lat_dir :: string
  nmea_lon :: string
  lon_dir :: string
  num_sats :: string

type_synonym parser = "string \<Rightarrow> error + sentence"

record LatLon =
  lat :: real
  lon :: real
  num_satellites :: pyval

text \<open>
  The class \<^verbatim>\<open>LatLon(NamedTuple)\<close> declares its three fields without default values, so
  a call that leaves the third argument out raises \<^verbatim>\<open>TypeError\<close>. The annotation
  \<^verbatim>\<open>num_satellites: int\<close> is not enforced: the field holds the value it is given.
\<close>

definition LatLon_new :: "real \<Rightarrow> real \<Rightarrow> pyval option \<Rightarrow> error + LatLon" where
  "LatLon_new la lo n =
     (case n of
        None \<Rightarrow> Inl TypeError
      | Some k \<Rightarrow> Inr \<lparr>lat = la, lon = lo, num_satellites = k\<rparr>)"

definition is_digit :: "char \<Rightarrow> bool" where
  "is_digit c = (48 \<le> (of_char c :: nat) \<and> (of_char c :: nat) \<le> 57)"

definition digit_value :: "char \<Rightarrow> nat" where
  "digit_value c = of_char c - 48"

definition decimal_value :: "string \<Rightarrow> nat" where
  "decimal_value ds = foldl (\<lambda>a c. 10 * a + digit_value c) 0 ds"

text \<open>
  Modelled from the spec: \<^verbatim>\<open>pynmea2.dm_to_sd\<close> is not part of the sources. The spec gives
  the format \<^verbatim>\<open>DDMM.MMMM\<close> (degrees, then two digits of minutes, a point, and the
  decimals of the minutes) and the conversion \<^verbatim>\<open>decimal = degrees + minutes/60\<close>.
  \<open>split_dm\<close> reads the degrees and the minutes of such a text; the spec says nothing of
  other texts, and the model rejects them with \<^verbatim>\<open>ValueError\<close>.
\<close>

definition split_dm :: "string \<Rightarrow> (nat \<times> real) option" where
  "split_dm dm =
     (let whole = takeWhile (\<lambda>c. c \<noteq> CHR ''.'') dm;
          rest = dropWhile (\<lambda>c. c \<noteq> CHR ''.'') dm;
          frac = tl rest
      in if 3 \<le> length whole \<and> list_all is_digit whole \<and> rest \<noteq> [] \<and> frac \<noteq> []
            \<and> list_all is_digit frac
         then Some (decimal_value (take (length whole - 2) whole),
                    real (decimal_value (drop (length whole - 2) whole @ frac))
                      / 10 ^ length frac)
         else None)"

definition dm_to_sd :: "string \<Rightarrow> error + real" where
  "dm_to_sd dm =
     (case split_dm dm of
        None \<Rightarrow> Inl ValueError
      | Some (d, m) \<Rightarrow> Inr (real d + m / 60))"

text \<open>
  The body of \<^verbatim>\<open>if sentence.sentence_type == 'GGA'\<close> in \<^verbatim>\<open>get_next_location\<close>: both
  coordinates are converted first, then the signs are set from the directions.
\<close>

definition gga_location :: "sentence \<Rightarrow> error + LatLon" where
  "gga_location s =
     (case dm_to_sd (nmea_lat s) of
        Inl e \<Rightarrow> Inl e
      | Inr la \<Rightarrow>
          (case dm_to_sd (nmea_lon s) of
             Inl e \<Rightarrow> Inl e
           | Inr lo \<Rightarrow>
               (let la' = (if lat_dir s = ''S'' then la * - 1 else la);
                    lo' = (if lon_dir s = ''W'' then lo * - 1 else lo)
                in LatLon_new la' lo' (Some (PyStr (num_sats s))))))"


section \<open>\<^verbatim>\<open>get_next_location\<close>\<close>

text \<open>
  The inner loop \<^verbatim>\<open>while sentence is None\<close>. A \<^verbatim>\<open>ParseError\<close> is caught and the next
  line is read inside the handler, where nothing catches a \<^verbatim>\<open>UnicodeDecodeError\<close>.
\<close>

partial_function (option) parse_retry ::
  "parser \<Rightarrow> string \<Rightarrow> world \<Rightarrow> ((error + sentence) \<times> world) option" where
  "parse_retry parse line w =
     (case parse line of
        Inr s \<Rightarrow> Some (Inr s, w\<lparr>parse_log := parse_log w @ [line]\<rparr>)
      | Inl e \<Rightarrow>
          (if e = ParseError then
             (case read_decoded (w\<lparr>parse_log := parse_log w @ [line]\<rparr>) of
                (Inl e', w') \<Rightarrow> Some (Inl e', w')
              | (Inr line', w') \<Rightarrow> parse_retry parse line' w')
           else Some (Inl e, w\<lparr>parse_log := parse_log w @ [line]\<rparr>)))"

text \<open>
  How the loop \<^verbatim>\<open>while retry < 100\<close> is left: by the \<^verbatim>\<open>return\<close> in its body, by an
  exception, or because its condition is false. The bound is an argument here;
  \<open>get_next_location\<close> below gives it the source's value 100. The value of \<^verbatim>\<open>retry\<close> at
  the exit is returned with the state.
\<close>

datatype loop_exit = Returned LatLon | Raised error | Exhausted

partial_function (option) acquire ::
  "parser \<Rightarrow> nat \<Rightarrow> nat \<Rightarrow> world \<Rightarrow> (loop_exit \<times> nat \<times> world) option" where
  "acquire parse budget retry w =
     (if retry < budget then
        (case read_decoded w of
           (Inl e, w1) \<Rightarrow> Some (Raised e, retry, w1)
         | (Inr line, w1) \<Rightarrow>
             (case parse_retry parse line w1 of
                None \<Rightarrow> None
              | Some (Inl e, w2) \<Rightarrow> Some (Raised e, retry, w2)
              | Some (Inr s, w2) \<Rightarrow>
                  (if sentence_type s = ''GGA'' then
                     (case gga_location s of
                        Inl e \<Rightarrow> Some (Raised e, retry, w2)
                      | Inr ll \<Rightarrow> Some (Returned ll, retry, w2))
                   else acquire parse budget (retry + 1) w2)))
      else Some (Exhausted, retry, w))"

definition get_next_location_within ::
  "nat \<Rightarrow> parser \<Rightarrow> world \<Rightarrow> ((error + LatLon) \<times> world) option" where
  "get_next_location_within budget parse w =
     (case flush_serial w of
        None \<Rightarrow> None
      | Some (Inl e, w1) \<Rightarrow> Some (Inl e, w1)
      | Some (Inr u, w1) \<Rightarrow>
          (case acquire parse budget 0 w1 of
             None \<Rightarrow> None
           | Some (Returned ll, r, w2) \<Rightarrow> Some (Inr ll, w2)
           | Some (Raised e, r, w2) \<Rightarrow> Some (Inl e, w2)
           | Some (Exhausted, r, w2) \<Rightarrow> Some (LatLon_new (- 999) (- 999) None, w2)))"

definition get_next_location :: "parser \<Rightarrow> world \<Rightarrow> ((error + LatLon) \<times> world) option" where
  "get_next_location parse w = get_next_location_within 100 parse w"


section \<open>The polling loop and the telemetry message\<close>

text \<open>
  The test \<^verbatim>\<open>lat_lon.lat > -999 and lat_lon.lon > -999\<close>, the same text in the \<^verbatim>\<open>main\<close>
  of \<^verbatim>\<open>decode-gps-data\<close> and of \<^verbatim>\<open>send-gps-data\<close>.
\<close>

definition coordinates_valid :: "LatLon \<Rightarrow> bool" where
  "coordinates_valid lat_lon = (lat lat_lon > - 999 \<and> lon lat_lon > - 999)"

text \<open>What \<^verbatim>\<open>json.dumps\<close> makes of a number and of a text.\<close>

definition to_json :: "pyval \<Rightarrow> json" where
  "to_json v = (case v of PyInt n \<Rightarrow> JInt n | PyStr t \<Rightarrow> JString t)"

definition message_json :: "LatLon \<Rightarrow> json" where
  "message_json lat_lon =
     JObject [(''gps'', JObject [(''lat'', JNumber (lat lat_lon)),
                                 (''lon'', JNumber (lon lat_lon)),
                                 (''num_satellites'', to_json (num_satellites lat_lon))])]"

text \<open>
  \<^verbatim>\<open>send_message\<close>: the body is \<^verbatim>\<open>json.dumps(message_json)\<close>, which the function reads
  back with \<^verbatim>\<open>json.loads\<close>; a body is modelled by the JSON value it denotes.
\<close>

definition send_message :: "LatLon \<Rightarrow> world \<Rightarrow> world" where
  "send_message lat_lon w = w\<lparr>telemetry := telemetry w @ [message_json lat_lon]\<rparr>"

text \<open>One turn of the \<^verbatim>\<open>while True\<close> loop of \<^verbatim>\<open>send-gps-data/app.py\<close>.\<close>

definition send_iteration :: "parser \<Rightarrow> world \<Rightarrow> ((error + unit) \<times> world) option" where
  "send_iteration parse w =
     (case get_next_location parse w of
        None \<Rightarrow> None
      | Some (Inl e, w') \<Rightarrow> Some (Inl e, w')
      | Some (Inr lat_lon, w') \<Rightarrow>
          (if coordinates_valid lat_lon then Some (Inr (), send_message lat_lon w')
           else Some (Inr (), w')))"


section \<open>The Azure function\<close>

text \<open>
  \<^verbatim>\<open>d[key]\<close> on a parsed JSON value: a missing key raises \<^verbatim>\<open>KeyError\<close>, a value that is
  not an object raises \<^verbatim>\<open>TypeError\<close>. Of a key that \<^verbatim>\<open>json.loads\<close> met twice the last
  value stands.
\<close>

definition subscript :: "json \<Rightarrow> string \<Rightarrow> error + json" where
  "subscript j k =
     (case j of
        JObject kvs \<Rightarrow> (case map_of (rev kvs) k of None \<Rightarrow> Inl KeyError | Some v \<Rightarrow> Inr v)
      | _ \<Rightarrow> Inl TypeError)"

record event =
  body :: json
  iothub_metadata :: "string \<rightharpoonup> string"

definition gps_data_trigger :: "event \<Rightarrow> error + json" where
  "gps_data_trigger ev =
     (case iothub_metadata ev ''connection-device-id'' of
        None \<Rightarrow> Inl KeyError
      | Some device \<Rightarrow>
     (case subscript (body ev) ''gps'' of Inl e \<Rightarrow> Inl e | Inr g1 \<Rightarrow>
     (case subscript g1 ''num_satellites'' of Inl e \<Rightarrow> Inl e | Inr n \<Rightarrow>
     (case subscript (body ev) ''gps'' of Inl e \<Rightarrow> Inl e | Inr g2 \<Rightarrow>
     (case subscript g2 ''lon'' of Inl e \<Rightarrow> Inl e | Inr lo \<Rightarrow>
     (case subscript (body ev) ''gps'' of Inl e \<Rightarrow> Inl e | Inr g3 \<Rightarrow>
     (case subscript g3 ''lat'' of Inl e \<Rightarrow> Inl e | Inr la \<Rightarrow>
        Inr (JObject [(''animalid'', JString device),
                      (''num_satellites'', n),
                      (''location'', JObject [(''type'', JString ''Point''),
                                              (''coordinates'', JArray [lo, la])])]))))))))"


section \<open>Notions used in the statements\<close>

text \<open>
  A chunk at which the loop of \<open>flush_serial\<close> stops: it decodes, and what is left of
  it after \<open>strip\<close> is not empty. For the variant of \<^verbatim>\<open>print-gps-data\<close> decoding is
  enough.
\<close>

definition usable :: "rawline \<Rightarrow> bool" where
  "usable b = (case b of Undecodable \<Rightarrow> False | Encoded t \<Rightarrow> strip t \<noteq> [])"

definition decodable :: "rawline \<Rightarrow> bool" where
  "decodable b = (case b of Undecodable \<Rightarrow> False | Encoded t \<Rightarrow> True)"

text \<open>The state after one \<^verbatim>\<open>readline()\<close>.\<close>

definition advance :: "world \<Rightarrow> world" where
  "advance w = w\<lparr>cursor := cursor w + 1, in_waiting := in_waiting w - 1\<rparr>"

text \<open>
  The texts of the chunks that decode, in order, and the chunks read between the cursor
  of a state and a later position.
\<close>

definition texts :: "rawline list \<Rightarrow> string list" where
  "texts bs = concat (map (\<lambda>b. case b of Undecodable \<Rightarrow> [] | Encoded t \<Rightarrow> [t]) bs)"

definition chunks :: "world \<Rightarrow> nat \<Rightarrow> rawline list" where
  "chunks w n = map (wire w) [cursor w..<n]"

text \<open>
  A line the parser turns into a sentence that is not a GGA sentence, and a line at which
  the parser raises \<^verbatim>\<open>ParseError\<close>.
\<close>

definition wrong_type :: "parser \<Rightarrow> string \<Rightarrow> bool" where
  "wrong_type parse line =
     (case parse line of Inl e \<Rightarrow> False | Inr s \<Rightarrow> sentence_type s \<noteq> ''GGA'')"

definition malformed :: "parser \<Rightarrow> string \<Rightarrow> bool" where
  "malformed parse line = (parse line = Inl ParseError)"

text \<open>The value the spec calls the sentinel.\<close>

definition sentinel :: LatLon where
  "sentinel = \<lparr>lat = - 999, lon = - 999, num_satellites = PyInt 0\<rparr>"


section \<open>Scripted inputs\<close>

text \<open>
  Concrete lines, a parser that knows exactly these lines (it ignores surrounding
  whitespace, and raises \<^verbatim>\<open>ParseError\<close> at any other line), and a connection that
  delivers a given list of chunks and then only timeouts.
\<close>

definition gga_line :: string where
  "gga_line = ''$GPGGA,123519,4807.038,N,01131.000,E,1,08,0.9,545.4,M,46.9,M,,*47''"

definition rmc_line :: string where
  "rmc_line = ''$GPRMC,123519,A,4807.038,N,01131.000,E,022.4,084.4,230394,003.1,W*6A''"

definition short_rmc_line :: string where
  "short_rmc_line = ''$GPRMC,...*6A''"

definition far_north_line :: string where
  "far_north_line = ''$GPGGA,123519,9060.000,N,01131.000,E,1,08,0.9,545.4,M,46.9,M,,*48''"

definition far_south_line :: string where
  "far_south_line = ''$GPGGA,123519,99900.000,S,01131.000,E,1,08,0.9,545.4,M,46.9,M,,*63''"

definition crlf :: string where
  "crlf = [CHR 0x0D, CHR 0x0A]"

definition gga_sentence :: sentence where
  "gga_sentence =
     \<lparr>sentence_type = ''GGA'', nmea_lat = ''4807.038'', lat_dir = ''N'',
      nmea_lon = ''01131.000'', lon_dir = ''E'', num_sats = ''08''\<rparr>"

definition rmc_sentence :: sentence where
  "rmc_sentence =
     \<lparr>sentence_type = ''RMC'', nmea_lat = ''4807.038'', lat_dir = ''N'',
      nmea_lon = ''01131.000'', lon_dir = ''E'', num_sats = []\<rparr>"

definition far_north_sentence :: sentence where
  "far_north_sentence =
     \<lparr>sentence_type = ''GGA'', nmea_lat = ''9060.000'', lat_dir = ''N'',
      nmea_lon = ''01131.000'', lon_dir = ''E'', num_sats = ''08''\<rparr>"

definition far_south_sentence :: sentence where
  "far_south_sentence =
     \<lparr>sentence_type = ''GGA'', nmea_lat = ''99900.000'', lat_dir = ''S'',
      nmea_lon = ''01131.000'', lon_dir = ''E'', num_sats = ''08''\<rparr>"

definition south_west_sentence :: sentence where
  "south_west_sentence =
     \<lparr>sentence_type = ''GGA'', nmea_lat = ''3746.2900'', lat_dir = ''S'',
      nmea_lon = ''12225.1000'', lon_dir = ''W'', num_sats = ''05''\<rparr>"

definition scripted_parse :: parser where
  "scripted_parse line =
     (if strip line = gga_line then Inr gga_sentence
      else if strip line = rmc_line then Inr rmc_sentence
      else if strip line = far_north_line then Inr far_north_sentence
      else if strip line = far_south_line then Inr far_south_sentence
      else Inl ParseError)"

definition script :: "rawline list \<Rightarrow> world" where
  "script bs =
     \<lparr>wire = (\<lambda>n. if n < length bs then bs ! n else Encoded []),
      cursor = 0, in_waiting = 0, parse_log = [], stdout = [], telemetry = []\<rparr>"

text \<open>A connection on which every chunk is the RMC sentence.\<close>

definition rmc_only :: world where
  "rmc_only =
     \<lparr>wire = (\<lambda>n. Encoded rmc_line),
      cursor = 0, in_waiting = 0, parse_log = [], stdout = [], telemetry = []\<rparr>"



text \<open>
  A connection with one stale chunk in its input buffer; after it come a chunk that does
  not decode and a line of whitespace only.
\<close>

definition stale :: world where
  "stale =
     \<lparr>wire = (\<lambda>n. if n = 0 then Encoded gga_line else if n = 1 then Undecodable
                  else if n = 2 then Encoded crlf else Encoded rmc_line),
      cursor = 0, in_waiting = 1, parse_log = [], stdout = [], telemetry = []\<rparr>"


section \<open>The loop of \<^verbatim>\<open>flush_serial\<close>\<close>

lemma flush_loop_skip:
  "\<not> usable (wire w (cursor w)) \<Longrightarrow> flush_loop w = flush_loop (advance w)"
  by (subst flush_loop.simps)
     (simp add: read_decoded_def readline_def decode_utf8_def usable_def advance_def
           split: rawline.splits)

lemma flush_loop_hit:
  "usable (wire w (cursor w)) \<Longrightarrow> flush_loop w = Some (Inr (), advance w)"
  by (subst flush_loop.simps)
     (simp add: read_decoded_def readline_def decode_utf8_def usable_def advance_def
           split: rawline.splits)

lemma flush_loop_finds:
  "cursor w + n = k \<Longrightarrow> usable (wire w k) \<Longrightarrow> (\<forall>j. cursor w \<le> j \<and> j < k \<longrightarrow> \<not> usable (wire w j))
   \<Longrightarrow> flush_loop w = Some (Inr (), w\<lparr>cursor := Suc k, in_waiting := in_waiting w - Suc n\<rparr>)"
proof (induction n arbitrary: w)
  case 0
  then show ?case by (simp add: flush_loop_hit advance_def)
next
  case (Suc n)
  have skip: "\<not> usable (wire w (cursor w))" using Suc.prems by simp
  have "flush_loop (advance w) = Some (Inr (), (advance w)\<lparr>cursor := Suc k, in_waiting := in_waiting (advance w) - Suc n\<rparr>)"
    by (rule Suc.IH) (use Suc.prems in \<open>simp_all add: advance_def\<close>)
  then show ?case using skip by (simp add: flush_loop_skip advance_def)
qed

lemma flush_loop_found:
  "flush_loop w = Some y \<Longrightarrow> \<exists>k. cursor w \<le> k \<and> usable (wire w k)"
proof (induction rule: flush_loop.raw_induct[rotated 1, consumes 1])
  case (1 flush_loop w y)
  show ?case
  proof (cases "usable (wire w (cursor w))")
    case True
    then show ?thesis by blast
  next
    case False
    then have "flush_loop (advance w) = Some y"
      using 1(2)
      by (auto simp: read_decoded_def readline_def decode_utf8_def usable_def advance_def
            split: rawline.splits if_splits)
    from 1(1)[OF this] show ?thesis by (auto simp: advance_def intro: Suc_leD)
  qed
qed


section \<open>What the inner loop reads and logs\<close>

lemma chunks_self [simp]: "chunks w (cursor w) = []"
  by (simp add: chunks_def)

lemma chunks_step:
  "cursor w < n \<Longrightarrow> chunks w n = wire w (cursor w) # map (wire w) [Suc (cursor w)..<n]"
  by (simp add: chunks_def upt_conv_Cons)

lemma texts_simps [simp]:
  "texts [] = []" "texts (Undecodable # bs) = texts bs" "texts (Encoded t # bs) = t # texts bs"
  by (simp_all add: texts_def)

lemma parse_retry_frame:
  "parse_retry parse line w = Some y \<Longrightarrow>
     wire (snd y) = wire w \<and> cursor w \<le> cursor (snd y) \<and> stdout (snd y) = stdout w
     \<and> telemetry (snd y) = telemetry w
     \<and> parse_log (snd y) = parse_log w @ line # texts (chunks w (cursor (snd y)))"
proof (induction rule: parse_retry.raw_induct[rotated 1, consumes 1])
  case (1 parse_retry parse line w y)
  show ?case
  proof (cases "parse line = Inl ParseError \<and> wire w (cursor w) \<noteq> Undecodable")
    case False
    then show ?thesis using 1(2)
      by (auto simp: read_decoded_def readline_def decode_utf8_def chunks_def
               split: sum.splits if_splits rawline.splits)
  next
    case True
    then obtain t where t: "wire w (cursor w) = Encoded t" by (cases "wire w (cursor w)") auto
    let ?w1 = "w\<lparr>parse_log := parse_log w @ [line], cursor := cursor w + 1,
                   in_waiting := in_waiting w - 1\<rparr>"
    have "parse_retry parse t ?w1 = Some y"
      using 1(2) True t by (simp add: read_decoded_def readline_def decode_utf8_def)
    from 1(1)[OF this] have ih: "wire (snd y) = wire w" "cursor w < cursor (snd y)"
      "stdout (snd y) = stdout w" "telemetry (snd y) = telemetry w"
      "parse_log (snd y) = parse_log w @ line # t # texts (map (wire w) [Suc (cursor w)..<cursor (snd y)])"
      by (simp_all add: chunks_def)
    show ?thesis using ih by (simp add: chunks_step [OF ih(2)] t)
  qed
qed


section \<open>What the acquisition loop reads and counts\<close>

lemma texts_append [simp]: "texts (xs @ ys) = texts xs @ texts ys"
  by (simp add: texts_def)

lemma chunks_split:
  "cursor w \<le> m \<Longrightarrow> m \<le> n \<Longrightarrow> chunks w n = chunks w m @ map (wire w) [m..<n]"
proof -
  assume a: "cursor w \<le> m" "m \<le> n"
  have "[cursor w..<n] = [cursor w..<m] @ [m..<n]"
    using a upt_add_eq_append [of "cursor w" m "n - m"] by simp
  then show ?thesis by (simp add: chunks_def)
qed

lemma parse_retry_result:
  "parse_retry parse line w = Some y \<Longrightarrow>
     parse_log (snd y) \<noteq> [] \<and>
     (case fst y of
        Inr s \<Rightarrow> parse (last (parse_log (snd y))) = Inr s
      | Inl e \<Rightarrow> True)"
proof (induction rule: parse_retry.raw_induct[rotated 1, consumes 1])
  case (1 parse_retry parse line w y)
  show ?case
  proof (cases "parse line = Inl ParseError \<and> wire w (cursor w) \<noteq> Undecodable")
    case False
    then show ?thesis using 1(2)
      by (auto simp: read_decoded_def readline_def decode_utf8_def
               split: sum.splits if_splits rawline.splits)
  next
    case True
    then obtain t where t: "wire w (cursor w) = Encoded t" by (cases "wire w (cursor w)") auto
    let ?w1 = "w\<lparr>parse_log := parse_log w @ [line], cursor := cursor w + 1,
                   in_waiting := in_waiting w - 1\<rparr>"
    have "parse_retry parse t ?w1 = Some y"
      using 1(2) True t by (simp add: read_decoded_def readline_def decode_utf8_def)
    from 1(1)[OF this] show ?thesis .
  qed
qed


lemma acquire_unfold_read:
  "retry < budget \<Longrightarrow> wire w (cursor w) = Encoded t \<Longrightarrow>
   acquire parse budget retry w =
     (case parse_retry parse t (advance w) of
                None \<Rightarrow> None
              | Some (Inl e, w2) \<Rightarrow> Some (Raised e, retry, w2)
              | Some (Inr s, w2) \<Rightarrow>
                  (if sentence_type s = ''GGA'' then
                     (case gga_location s of
                        Inl e \<Rightarrow> Some (Raised e, retry, w2)
                      | Inr ll \<Rightarrow> Some (Returned ll, retry, w2))
                   else acquire parse budget (retry + 1) w2))"
  by (subst acquire.simps) (simp add: read_decoded_def readline_def decode_utf8_def advance_def)

lemma acquire_frame:
  "acquire parse budget retry w = Some y \<Longrightarrow>
     wire (snd (snd y)) = wire w \<and> cursor w \<le> cursor (snd (snd y))
     \<and> stdout (snd (snd y)) = stdout w \<and> telemetry (snd (snd y)) = telemetry w
     \<and> parse_log (snd (snd y)) = parse_log w @ texts (chunks w (cursor (snd (snd y))))"
proof (induction rule: acquire.raw_induct[rotated 1, consumes 1])
  case (1 acquire parse budget retry w y)
  show ?case
  proof (cases "retry < budget \<and> wire w (cursor w) \<noteq> Undecodable")
    case False
    then show ?thesis using 1(2)
      by (auto simp: read_decoded_def readline_def decode_utf8_def chunks_def
               split: if_splits rawline.splits)
  next
    case True
    then obtain t where t: "wire w (cursor w) = Encoded t" by (cases "wire w (cursor w)") auto
    let ?w1 = "w\<lparr>cursor := cursor w + 1, in_waiting := in_waiting w - 1\<rparr>"
    from 1(2) True t obtain res w2 where pr: "parse_retry parse t ?w1 = Some (res, w2)"
      by (auto simp: read_decoded_def readline_def decode_utf8_def split: option.splits)
    from parse_retry_frame[OF pr] have fr: "wire w2 = wire w" "cursor w < cursor w2"
      "stdout w2 = stdout w" "telemetry w2 = telemetry w"
      "parse_log w2 = parse_log w @ t # texts (map (wire w) [Suc (cursor w)..<cursor w2])"
      by (simp_all add: chunks_def)
    have log2: "parse_log w2 = parse_log w @ texts (chunks w (cursor w2))"
      using fr by (simp add: chunks_step [OF fr(2)] t)
    show ?thesis
    proof (cases "\<exists>s. res = Inr s \<and> sentence_type s \<noteq> ''GGA''")
      case False
      then have "snd (snd y) = w2" using 1(2) True t pr
        by (auto simp: read_decoded_def readline_def decode_utf8_def split: sum.splits if_splits)
      then show ?thesis using fr log2 by simp
    next
      case True
      then have "acquire parse budget (retry + 1) w2 = Some y" using 1(2) \<open>retry < budget \<and> _\<close> t pr
        by (auto simp: read_decoded_def readline_def decode_utf8_def split: sum.splits if_splits)
      from 1(1)[OF this] have ih: "wire (snd (snd y)) = wire w2" "cursor w2 \<le> cursor (snd (snd y))"
        "stdout (snd (snd y)) = stdout w2" "telemetry (snd (snd y)) = telemetry w2"
        "parse_log (snd (snd y)) = parse_log w2 @ texts (chunks w2 (cursor (snd (snd y))))"
        by simp_all
      have "chunks w (cursor (snd (snd y))) = chunks w (cursor w2) @ chunks w2 (cursor (snd (snd y)))"
        using chunks_split[of w "cursor w2" "cursor (snd (snd y))"] fr ih by (simp add: chunks_def)
      then show ?thesis using fr ih log2 by simp
    qed
  qed
qed


lemma acquire_returned:
  "acquire parse budget retry w = Some y \<Longrightarrow> fst y = Returned ll \<Longrightarrow>
     parse_log (snd (snd y)) \<noteq> [] \<and>
     (\<exists>s. parse (last (parse_log (snd (snd y)))) = Inr s \<and> sentence_type s = ''GGA''
          \<and> gga_location s = Inr ll)"
proof (induction rule: acquire.raw_induct[rotated 1, consumes 1])
  case (1 acquire parse budget retry w y)
  show ?case
  proof (cases "retry < budget \<and> wire w (cursor w) \<noteq> Undecodable")
    case False
    then show ?thesis using 1(2,3)
      by (auto simp: read_decoded_def readline_def decode_utf8_def
               split: if_splits rawline.splits)
  next
    case True
    then obtain t where t: "wire w (cursor w) = Encoded t" by (cases "wire w (cursor w)") auto
    let ?w1 = "w\<lparr>cursor := cursor w + 1, in_waiting := in_waiting w - 1\<rparr>"
    from 1(2) True t obtain res w2 where pr: "parse_retry parse t ?w1 = Some (res, w2)"
      by (auto simp: read_decoded_def readline_def decode_utf8_def split: option.splits)
    from parse_retry_result[OF pr]
    have res: "parse_log w2 \<noteq> []" "\<And>s. res = Inr s \<Longrightarrow> parse (last (parse_log w2)) = Inr s"
      by simp_all
    show ?thesis
    proof (cases "\<exists>s. res = Inr s \<and> sentence_type s \<noteq> ''GGA''")
      case False
      then obtain s where "res = Inr s" "sentence_type s = ''GGA''" "gga_location s = Inr ll" "snd (snd y) = w2"
        using 1(2,3) True t pr
        by (auto simp: read_decoded_def readline_def decode_utf8_def split: sum.splits if_splits)
      then show ?thesis using res by auto
    next
      case yes: True
      then have "acquire parse budget (retry + 1) w2 = Some y" using 1(2) True t pr
        by (auto simp: read_decoded_def readline_def decode_utf8_def split: sum.splits if_splits)
      from 1(1)[OF this 1(3)] show ?thesis .
    qed
  qed
qed

lemma parse_retry_ok:
  "parse line = Inr s \<Longrightarrow>
   parse_retry parse line w = Some (Inr s, w\<lparr>parse_log := parse_log w @ [line]\<rparr>)"
  by (subst parse_retry.simps) simp

lemma parse_retry_raise:
  "parse line = Inl e \<Longrightarrow> e \<noteq> ParseError \<Longrightarrow>
   parse_retry parse line w = Some (Inl e, w\<lparr>parse_log := parse_log w @ [line]\<rparr>)"
  by (subst parse_retry.simps) simp

lemma parse_retry_next:
  "parse line = Inl ParseError \<Longrightarrow> wire w (cursor w) = Encoded t \<Longrightarrow>
   parse_retry parse line w = parse_retry parse t (advance (w\<lparr>parse_log := parse_log w @ [line]\<rparr>))"
  by (subst parse_retry.simps) (simp add: read_decoded_def readline_def decode_utf8_def advance_def)

lemma parse_retry_undecodable:
  "parse line = Inl ParseError \<Longrightarrow> wire w (cursor w) = Undecodable \<Longrightarrow>
   parse_retry parse line w = Some (Inl UnicodeDecodeError, advance (w\<lparr>parse_log := parse_log w @ [line]\<rparr>))"
  by (subst parse_retry.simps) (simp add: read_decoded_def readline_def decode_utf8_def advance_def)

lemma acquire_exhausted:
  "\<not> retry < budget \<Longrightarrow> acquire parse budget retry w = Some (Exhausted, retry, w)"
  by (subst acquire.simps) simp

lemma acquire_undecodable:
  "retry < budget \<Longrightarrow> wire w (cursor w) = Undecodable \<Longrightarrow>
   acquire parse budget retry w = Some (Raised UnicodeDecodeError, retry, advance w)"
  by (subst acquire.simps) (simp add: read_decoded_def readline_def decode_utf8_def advance_def)


section \<open>The scripted inputs evaluated\<close>

lemma strip_id: "s \<noteq> [] \<Longrightarrow> \<not> isspace (hd s) \<Longrightarrow> \<not> isspace (last s) \<Longrightarrow> strip s = s"
proof -
  assume a: "s \<noteq> []" "\<not> isspace (hd s)" "\<not> isspace (last s)"
  have 1: "dropWhile isspace s = s" using a by (cases s) auto
  have "rev s \<noteq> []" "\<not> isspace (hd (rev s))" using a by (simp_all add: hd_rev)
  then have 2: "dropWhile isspace (rev s) = rev s" by (cases "rev s") auto
  show ?thesis by (simp add: strip_def 1 2)
qed

lemma strip_lines [simp]:
  "strip gga_line = gga_line" "strip rmc_line = rmc_line" "strip short_rmc_line = short_rmc_line"
  "strip far_north_line = far_north_line"
  by (rule strip_id; simp add: gga_line_def rmc_line_def short_rmc_line_def far_north_line_def isspace_def)+

lemma lines_distinct [simp]:
  "gga_line \<noteq> rmc_line" "rmc_line \<noteq> gga_line" "short_rmc_line \<noteq> gga_line" "short_rmc_line \<noteq> rmc_line"
  "short_rmc_line \<noteq> far_north_line" "far_north_line \<noteq> gga_line" "far_north_line \<noteq> rmc_line"
  "gga_line \<noteq> []" "rmc_line \<noteq> []" "short_rmc_line \<noteq> []" "far_north_line \<noteq> []"
  "short_rmc_line \<noteq> far_south_line"
  by (simp_all add: gga_line_def rmc_line_def short_rmc_line_def far_north_line_def
        far_south_line_def)

lemma scripted_parse_simps [simp]:
  "scripted_parse gga_line = Inr gga_sentence"
  "scripted_parse rmc_line = Inr rmc_sentence"
  "scripted_parse far_north_line = Inr far_north_sentence"
  "scripted_parse short_rmc_line = Inl ParseError"
  by (simp_all add: scripted_parse_def)

lemma sentence_types [simp]:
  "sentence_type gga_sentence = ''GGA''" "sentence_type far_north_sentence = ''GGA''"
  "sentence_type rmc_sentence \<noteq> ''GGA''"
  by (simp_all add: gga_sentence_def far_north_sentence_def rmc_sentence_def)

lemma strip_crlf: "strip (gga_line @ crlf) = gga_line"
  by (simp add: strip_def crlf_def gga_line_def isspace_def)

lemma gga_location_gga: "gga_location gga_sentence = Inr \<lparr>lat = 481173 / 10000, lon = 691 / 60, num_satellites = PyStr ''08''\<rparr>"
  by (simp add: gga_location_def gga_sentence_def dm_to_sd_def split_dm_def is_digit_def
       decimal_value_def digit_value_def LatLon_new_def)

lemma gga_location_far_north: "gga_location far_north_sentence = Inr \<lparr>lat = 91, lon = 691 / 60, num_satellites = PyStr ''08''\<rparr>"
  by (simp add: gga_location_def far_north_sentence_def dm_to_sd_def split_dm_def is_digit_def
       decimal_value_def digit_value_def LatLon_new_def)

lemma usable_simps [simp]: "usable Undecodable = False" "usable (Encoded t) = (strip t \<noteq> [])"
  by (simp_all add: usable_def)

lemmas run = acquire_unfold_read parse_retry_ok parse_retry_next parse_retry_raise
  parse_retry_undecodable acquire_exhausted acquire_undecodable flush_loop_skip flush_loop_hit
  advance_def flush_serial_def reset_input_buffer_def flush_output_def
  get_next_location_def get_next_location_within_def


section \<open>\<^verbatim>\<open>flush_serial\<close> as a whole, regular streams, \<^verbatim>\<open>strip\<close>\<close>

lemma flush_serial_finds:
  assumes "cursor w + in_waiting w \<le> k" "usable (wire w k)"
    and "\<forall>j. cursor w + in_waiting w \<le> j \<and> j < k \<longrightarrow> \<not> usable (wire w j)"
  shows "flush_serial w = Some (Inr (), w\<lparr>cursor := Suc k, in_waiting := 0\<rparr>)"
proof -
  let ?w0 = "w\<lparr>cursor := cursor w + in_waiting w, in_waiting := 0\<rparr>"
  have "flush_loop ?w0 = Some (Inr (), ?w0\<lparr>cursor := Suc k,
          in_waiting := in_waiting ?w0 - Suc (k - (cursor w + in_waiting w))\<rparr>)"
    by (rule flush_loop_finds) (use assms in simp_all)
  then show ?thesis by (simp add: flush_serial_def reset_input_buffer_def flush_output_def)
qed

lemma flush_serial_found:
  assumes "flush_serial w = Some y"
  shows "\<exists>k. cursor w + in_waiting w \<le> k \<and> usable (wire w k)"
  using flush_loop_found [of "w\<lparr>cursor := cursor w + in_waiting w, in_waiting := 0\<rparr>" y] assms
  by (simp add: flush_serial_def reset_input_buffer_def flush_output_def)

lemma first_usable:
  assumes "\<exists>k. (p::nat) \<le> k \<and> Q k"
  shows "\<exists>k. p \<le> k \<and> Q k \<and> (\<forall>j. p \<le> j \<and> j < k \<longrightarrow> \<not> Q j)"
proof -
  let ?k = "LEAST k. p \<le> k \<and> Q k"
  from assms have "p \<le> ?k \<and> Q ?k" by (elim exE) (rule LeastI)
  moreover have "\<forall>j. p \<le> j \<and> j < ?k \<longrightarrow> \<not> Q j" using not_less_Least by blast
  ultimately show ?thesis by blast
qed

lemma flush_serial_returns:
  assumes "flush_serial w = Some y"
  shows "\<exists>k. cursor w + in_waiting w \<le> k \<and> usable (wire w k)
            \<and> (\<forall>j. cursor w + in_waiting w \<le> j \<and> j < k \<longrightarrow> \<not> usable (wire w j))
            \<and> y = (Inr (), w\<lparr>cursor := Suc k, in_waiting := 0\<rparr>)"
proof -
  from first_usable [OF flush_serial_found [OF assms]] obtain k where
    k: "cursor w + in_waiting w \<le> k" "usable (wire w k)"
       "\<forall>j. cursor w + in_waiting w \<le> j \<and> j < k \<longrightarrow> \<not> usable (wire w j)" by blast
  from flush_serial_finds [OF k] assms have "y = (Inr (), w\<lparr>cursor := Suc k, in_waiting := 0\<rparr>)"
    by simp
  with k show ?thesis by blast
qed

lemma print_flush_loop_skip:
  "\<not> decodable (wire w (cursor w)) \<Longrightarrow> print_flush_loop w = print_flush_loop (advance w)"
  by (subst print_flush_loop.simps)
     (simp add: read_decoded_def readline_def decode_utf8_def decodable_def advance_def
           split: rawline.splits)

lemma print_flush_loop_hit:
  "decodable (wire w (cursor w)) \<Longrightarrow> print_flush_loop w = Some (Inr (), advance w)"
  by (subst print_flush_loop.simps)
     (simp add: read_decoded_def readline_def decode_utf8_def decodable_def advance_def
           split: rawline.splits)

lemma print_flush_loop_finds:
  "cursor w + n = k \<Longrightarrow> decodable (wire w k)
   \<Longrightarrow> (\<forall>j. cursor w \<le> j \<and> j < k \<longrightarrow> \<not> decodable (wire w j))
   \<Longrightarrow> print_flush_loop w =
         Some (Inr (), w\<lparr>cursor := Suc k, in_waiting := in_waiting w - Suc n\<rparr>)"
proof (induction n arbitrary: w)
  case 0
  then show ?case by (simp add: print_flush_loop_hit advance_def)
next
  case (Suc n)
  have skip: "\<not> decodable (wire w (cursor w))" using Suc.prems by simp
  have "print_flush_loop (advance w) =
          Some (Inr (), (advance w)\<lparr>cursor := Suc k, in_waiting := in_waiting (advance w) - Suc n\<rparr>)"
    by (rule Suc.IH) (use Suc.prems in \<open>simp_all add: advance_def\<close>)
  then show ?case using skip by (simp add: print_flush_loop_skip advance_def)
qed

lemma print_flush_loop_found:
  "print_flush_loop w = Some y \<Longrightarrow> \<exists>k. cursor w \<le> k \<and> decodable (wire w k)"
proof (induction rule: print_flush_loop.raw_induct[rotated 1, consumes 1])
  case (1 print_flush_loop w y)
  show ?case
  proof (cases "decodable (wire w (cursor w))")
    case True
    then show ?thesis by blast
  next
    case False
    then have "print_flush_loop (advance w) = Some y"
      using 1(2)
      by (auto simp: read_decoded_def readline_def decode_utf8_def decodable_def advance_def
            split: rawline.splits if_splits)
    from 1(1)[OF this] show ?thesis by (auto simp: advance_def intro: Suc_leD)
  qed
qed

lemma print_flush_serial_finds:
  assumes "cursor w + in_waiting w \<le> k" "decodable (wire w k)"
    and "\<forall>j. cursor w + in_waiting w \<le> j \<and> j < k \<longrightarrow> \<not> decodable (wire w j)"
  shows "print_flush_serial w = Some (Inr (), w\<lparr>cursor := Suc k, in_waiting := 0\<rparr>)"
proof -
  let ?w0 = "w\<lparr>cursor := cursor w + in_waiting w, in_waiting := 0\<rparr>"
  have "print_flush_loop ?w0 = Some (Inr (), ?w0\<lparr>cursor := Suc k,
          in_waiting := in_waiting ?w0 - Suc (k - (cursor w + in_waiting w))\<rparr>)"
    by (rule print_flush_loop_finds) (use assms in simp_all)
  then show ?thesis by (simp add: print_flush_serial_def reset_input_buffer_def flush_output_def)
qed

lemma print_flush_serial_found:
  assumes "print_flush_serial w = Some y"
  shows "\<exists>k. cursor w + in_waiting w \<le> k \<and> decodable (wire w k)"
  using print_flush_loop_found [of "w\<lparr>cursor := cursor w + in_waiting w, in_waiting := 0\<rparr>" y] assms
  by (simp add: print_flush_serial_def reset_input_buffer_def flush_output_def)

lemma print_flush_serial_returns:
  assumes "print_flush_serial w = Some y"
  shows "\<exists>k. cursor w + in_waiting w \<le> k \<and> decodable (wire w k)
            \<and> (\<forall>j. cursor w + in_waiting w \<le> j \<and> j < k \<longrightarrow> \<not> decodable (wire w j))
            \<and> y = (Inr (), w\<lparr>cursor := Suc k, in_waiting := 0\<rparr>)"
proof -
  from first_usable [OF print_flush_serial_found [OF assms]] obtain k where
    k: "cursor w + in_waiting w \<le> k" "decodable (wire w k)"
       "\<forall>j. cursor w + in_waiting w \<le> j \<and> j < k \<longrightarrow> \<not> decodable (wire w j)" by blast
  from print_flush_serial_finds [OF k] assms
  have "y = (Inr (), w\<lparr>cursor := Suc k, in_waiting := 0\<rparr>)" by simp
  with k show ?thesis by blast
qed

lemma acquire_all_wrong:
  "b - r = n \<Longrightarrow> \<forall>k. cursor w \<le> k \<longrightarrow> wire w k = Encoded l \<Longrightarrow> parse l = Inr s
   \<Longrightarrow> sentence_type s \<noteq> ''GGA''
   \<Longrightarrow> acquire parse b r w =
         Some (Exhausted, max r b,
               w\<lparr>cursor := cursor w + n, in_waiting := in_waiting w - n,
                  parse_log := parse_log w @ replicate n l\<rparr>)"
proof (induction n arbitrary: r w)
  case 0
  then show ?case by (simp add: acquire_exhausted max_def)
next
  case (Suc n)
  let ?w2 = "(advance w)\<lparr>parse_log := parse_log (advance w) @ [l]\<rparr>"
  have r: "r < b" using Suc.prems by simp
  have here: "wire w (cursor w) = Encoded l" using Suc.prems by simp
  have step: "acquire parse b r w = acquire parse b (r + 1) ?w2"
    using Suc.prems by (simp add: acquire_unfold_read [OF r here] parse_retry_ok)
  have "acquire parse b (r + 1) ?w2 =
         Some (Exhausted, max (r + 1) b,
               ?w2\<lparr>cursor := cursor ?w2 + n, in_waiting := in_waiting ?w2 - n,
                  parse_log := parse_log ?w2 @ replicate n l\<rparr>)"
    by (rule Suc.IH) (use Suc.prems in \<open>auto simp: advance_def\<close>)
  then show ?case using r by (simp add: step advance_def max_def replicate_app_Cons_same)
qed


lemma last_dropWhile: "dropWhile P xs \<noteq> [] \<Longrightarrow> last (dropWhile P xs) = last xs"
  by (induction xs) (auto split: if_splits)

lemma strip_clean:
  assumes "strip t \<noteq> []"
  shows "\<not> isspace (hd (strip t)) \<and> \<not> isspace (last (strip t))"
proof -
  let ?u = "dropWhile isspace t"
  let ?v = "dropWhile isspace (rev ?u)"
  have v: "?v \<noteq> []" using assms by (simp add: strip_def)
  have u: "?u \<noteq> []"
  proof
    assume e: "?u = []"
    have "?v = []" by (simp only: e rev.simps dropWhile.simps)
    with v show False by simp
  qed
  have "last (strip t) = hd ?v" by (simp add: strip_def last_rev)
  moreover have "\<not> isspace (hd ?v)" using v hd_dropWhile by blast
  moreover have "hd (strip t) = last ?v" using v by (simp add: strip_def hd_rev)
  moreover have "last ?v = last (rev ?u)" using v by (rule last_dropWhile)
  moreover have "last (rev ?u) = hd ?u" using u by (simp add: last_rev)
  moreover have "\<not> isspace (hd ?u)" using u hd_dropWhile by blast
  ultimately show ?thesis by simp
qed



section \<open>Runs on scripted inputs\<close>

lemma run_rmc_then_gga:
  "get_next_location_within (Suc n) scripted_parse (script [Encoded short_rmc_line, Encoded gga_line])
   = Some (Inr \<lparr>lat = 481173 / 10000, lon = 691 / 60, num_satellites = PyStr ''08''\<rparr>,
       (script [Encoded short_rmc_line, Encoded gga_line])\<lparr>cursor := 2, parse_log := [gga_line]\<rparr>)"
  by (simp add: run script_def gga_location_gga)

lemma run_rmc_then_undecodable:
  "get_next_location scripted_parse (script [Encoded rmc_line, Undecodable])
   = Some (Inl UnicodeDecodeError, (script [Encoded rmc_line, Undecodable])\<lparr>cursor := 2\<rparr>)"
  by (simp add: run script_def)



section \<open>The claims\<close>

text \<open>
  C8. The message body built for a fix is the JSON object with the one key \<^verbatim>\<open>gps\<close>, whose
  value has the keys \<^verbatim>\<open>lat\<close>, \<^verbatim>\<open>lon\<close> and \<^verbatim>\<open>num_satellites\<close>; from such a body the function
  builds a record whose location is a GeoJSON point with the coordinates in the order
  longitude, latitude.
\<close>

theorem telemetry_and_record_shape:
  "telemetry (send_message ll w) =
     telemetry w @ [JObject [(''gps'', JObject [(''lat'', JNumber (lat ll)),
                                                (''lon'', JNumber (lon ll)),
                                                (''num_satellites'', to_json (num_satellites ll))])]]
   \<and> (iothub_metadata ev ''connection-device-id'' = Some device
        \<and> body ev = message_json ll \<longrightarrow>
      gps_data_trigger ev =
        Inr (JObject [(''animalid'', JString device),
                      (''num_satellites'', to_json (num_satellites ll)),
                      (''location'',
                         JObject [(''type'', JString ''Point''),
                                  (''coordinates'', JArray [JNumber (lon ll), JNumber (lat ll)])])]))"
  by (simp add: gps_data_trigger_def message_json_def subscript_def send_message_def)

theorem telemetry_and_record_shape_witness:
  "gps_data_trigger
     \<lparr>body = message_json \<lparr>lat = 481173 / 10000, lon = 691 / 60, num_satellites = PyStr ''08''\<rparr>,
      iothub_metadata = [''connection-device-id'' \<mapsto> ''gps-sensor'']\<rparr> =
   Inr (JObject [(''animalid'', JString ''gps-sensor''),
                 (''num_satellites'', JString ''08''),
                 (''location'',
                    JObject [(''type'', JString ''Point''),
                             (''coordinates'', JArray [JNumber (691 / 60), JNumber (481173 / 10000)])])])"
  using telemetry_and_record_shape
    [of "\<lparr>lat = 481173 / 10000, lon = 691 / 60, num_satellites = PyStr ''08''\<rparr>" "script []"
        "\<lparr>body = message_json \<lparr>lat = 481173 / 10000, lon = 691 / 60, num_satellites = PyStr ''08''\<rparr>,
          iothub_metadata = [''connection-device-id'' \<mapsto> ''gps-sensor'']\<rparr>" "''gps-sensor''"]
  by (simp add: to_json_def)


lemma strip_crlf_only [simp]: "strip crlf = []"
  by (simp add: strip_def crlf_def isspace_def)

lemma decodable_simps [simp]: "decodable Undecodable = False" "decodable (Encoded t) = True"
  by (simp_all add: decodable_def)

text \<open>
  C10. \<^verbatim>\<open>flush_serial\<close> does more than discard the buffer. After the reset it reads
  chunk after chunk until one decodes and, in \<^verbatim>\<open>decode-gps-data\<close> and \<^verbatim>\<open>send-gps-data\<close>,
  is not empty once stripped (in \<^verbatim>\<open>print-gps-data\<close>: until one decodes). It returns at
  the first such chunk, with the cursor behind it, and never returns when there is none.
  That chunk is consumed and thrown away: nothing is returned but the state, and neither
  the parser's log nor any output has changed.
\<close>
theorem flush_serial_discards_first_clean_line:
  "(\<forall>k. cursor w + in_waiting w \<le> k \<and> usable (wire w k)
         \<and> (\<forall>j. cursor w + in_waiting w \<le> j \<and> j < k \<longrightarrow> \<not> usable (wire w j))
       \<longrightarrow> flush_serial w = Some (Inr (), w\<lparr>cursor := Suc k, in_waiting := 0\<rparr>))
   \<and> ((\<forall>k. cursor w + in_waiting w \<le> k \<longrightarrow> \<not> usable (wire w k)) \<longrightarrow> flush_serial w = None)
   \<and> (\<forall>k. cursor w + in_waiting w \<le> k \<and> decodable (wire w k)
         \<and> (\<forall>j. cursor w + in_waiting w \<le> j \<and> j < k \<longrightarrow> \<not> decodable (wire w j))
       \<longrightarrow> print_flush_serial w = Some (Inr (), w\<lparr>cursor := Suc k, in_waiting := 0\<rparr>))
   \<and> ((\<forall>k. cursor w + in_waiting w \<le> k \<longrightarrow> \<not> decodable (wire w k))
       \<longrightarrow> print_flush_serial w = None)
   \<and> (\<forall>r w'. flush_serial w = Some (r, w') \<or> print_flush_serial w = Some (r, w')
       \<longrightarrow> r = Inr () \<and> parse_log w' = parse_log w \<and> stdout w' = stdout w
           \<and> telemetry w' = telemetry w \<and> wire w' = wire w)"
proof (intro conjI allI impI)
  fix k assume "cursor w + in_waiting w \<le> k \<and> usable (wire w k)
         \<and> (\<forall>j. cursor w + in_waiting w \<le> j \<and> j < k \<longrightarrow> \<not> usable (wire w j))"
  then show "flush_serial w = Some (Inr (), w\<lparr>cursor := Suc k, in_waiting := 0\<rparr>)"
    by (intro flush_serial_finds) simp_all
next
  assume none: "\<forall>k. cursor w + in_waiting w \<le> k \<longrightarrow> \<not> usable (wire w k)"
  show "flush_serial w = None"
  proof (cases "flush_serial w")
    case (Some y)
    from flush_serial_found [OF this] none show ?thesis by blast
  qed simp
next
  fix k assume "cursor w + in_waiting w \<le> k \<and> decodable (wire w k)
         \<and> (\<forall>j. cursor w + in_waiting w \<le> j \<and> j < k \<longrightarrow> \<not> decodable (wire w j))"
  then show "print_flush_serial w = Some (Inr (), w\<lparr>cursor := Suc k, in_waiting := 0\<rparr>)"
    by (intro print_flush_serial_finds) simp_all
next
  assume none: "\<forall>k. cursor w + in_waiting w \<le> k \<longrightarrow> \<not> decodable (wire w k)"
  show "print_flush_serial w = None"
  proof (cases "print_flush_serial w")
    case (Some y)
    from print_flush_serial_found [OF this] none show ?thesis by blast
  qed simp
next
  fix r w' assume "flush_serial w = Some (r, w') \<or> print_flush_serial w = Some (r, w')"
  then have "\<exists>k. (r, w') = (Inr (), w\<lparr>cursor := Suc k, in_waiting := 0\<rparr>)"
    using flush_serial_returns [of w "(r, w')"] print_flush_serial_returns [of w "(r, w')"]
    by blast
  then obtain k where "r = Inr ()" "w' = w\<lparr>cursor := Suc k, in_waiting := 0\<rparr>" by auto
  then show "r = Inr ()" "parse_log w' = parse_log w" "stdout w' = stdout w"
    "telemetry w' = telemetry w" "wire w' = wire w" by simp_all
qed

theorem flush_serial_discards_first_clean_line_witness:
  "flush_serial stale = Some (Inr (), stale\<lparr>cursor := 4, in_waiting := 0\<rparr>)
   \<and> print_flush_serial stale = Some (Inr (), stale\<lparr>cursor := 3, in_waiting := 0\<rparr>)"
proof -
  have between: "\<And>j::nat. 1 \<le> j \<Longrightarrow> j < 3 \<Longrightarrow> j = 1 \<or> j = 2" by arith
  have a: "cursor stale + in_waiting stale \<le> 3 \<and> usable (wire stale 3)
         \<and> (\<forall>j. cursor stale + in_waiting stale \<le> j \<and> j < 3 \<longrightarrow> \<not> usable (wire stale j))"
    using between by (auto simp: stale_def)
  have b: "cursor stale + in_waiting stale \<le> 2 \<and> decodable (wire stale 2)
         \<and> (\<forall>j. cursor stale + in_waiting stale \<le> j \<and> j < 2 \<longrightarrow> \<not> decodable (wire stale j))"
    by (auto simp: stale_def)
  from flush_serial_discards_first_clean_line [of stale] a b
  have "flush_serial stale = Some (Inr (), stale\<lparr>cursor := Suc 3, in_waiting := 0\<rparr>)"
       "print_flush_serial stale = Some (Inr (), stale\<lparr>cursor := Suc 2, in_waiting := 0\<rparr>)"
    by blast+
  then show ?thesis by (simp add: eval_nat_numeral)
qed

lemma acquire_hands_over_verbatim:
  "acquire parse budget retry w = Some (ex, r, w') \<Longrightarrow>
     parse_log w' = parse_log w @ texts (chunks w (cursor w'))"
  using acquire_frame [of parse budget retry w "(ex, r, w')"] by simp

lemma print_iteration_prints:
  "wire w (cursor w) = Encoded t \<Longrightarrow> strip t \<noteq> [] \<Longrightarrow>
   print_iteration w = (Inr (), (advance w)\<lparr>stdout := stdout w @ [strip t]\<rparr>)"
  by (simp add: print_iteration_def read_decoded_def readline_def decode_utf8_def advance_def)

lemma print_iteration_silent:
  "wire w (cursor w) = Encoded t \<Longrightarrow> strip t = [] \<Longrightarrow> print_iteration w = (Inr (), advance w)"
  by (simp add: print_iteration_def read_decoded_def readline_def decode_utf8_def advance_def)

lemma strip_gga_crlf [simp]: "strip (gga_line @ crlf) = gga_line"
  by (simp add: strip_def crlf_def gga_line_def isspace_def)

lemma scripted_parse_crlf [simp]: "scripted_parse (gga_line @ crlf) = Inr gga_sentence"
  by (simp add: scripted_parse_def)

lemma run_rmc_then_gga_crlf:
  "get_next_location scripted_parse (script [Encoded rmc_line, Encoded (gga_line @ crlf)])
   = Some (Inr \<lparr>lat = 481173 / 10000, lon = 691 / 60, num_satellites = PyStr ''08''\<rparr>,
       (script [Encoded rmc_line, Encoded (gga_line @ crlf)])
         \<lparr>cursor := 2, parse_log := [gga_line @ crlf]\<rparr>)"
  by (simp add: run script_def gga_location_gga)

lemma parse_retry_stops_at_undecodable:
  "parse_retry parse line w = Some y \<Longrightarrow>
     \<forall>k. cursor w \<le> k \<and> k < cursor (snd y) \<and> wire w k = Undecodable
         \<longrightarrow> Suc k = cursor (snd y) \<and> fst y = Inl UnicodeDecodeError"
proof (induction rule: parse_retry.raw_induct[rotated 1, consumes 1])
  case (1 parse_retry parse line w y)
  show ?case
  proof (cases "parse line = Inl ParseError \<and> wire w (cursor w) \<noteq> Undecodable")
    case False
    then show ?thesis using 1(2)
      by (auto simp: read_decoded_def readline_def decode_utf8_def less_Suc_eq
               split: sum.splits if_splits rawline.splits)
  next
    case True
    then obtain t where t: "wire w (cursor w) = Encoded t" by (cases "wire w (cursor w)") auto
    let ?w1 = "w\<lparr>parse_log := parse_log w @ [line], cursor := cursor w + 1,
                   in_waiting := in_waiting w - 1\<rparr>"
    have "parse_retry parse t ?w1 = Some y"
      using 1(2) True t by (simp add: read_decoded_def readline_def decode_utf8_def)
    from 1(1)[OF this] have ih: "\<forall>k. Suc (cursor w) \<le> k \<and> k < cursor (snd y) \<and> wire w k = Undecodable
         \<longrightarrow> Suc k = cursor (snd y) \<and> fst y = Inl UnicodeDecodeError" by simp
    show ?thesis
    proof (intro allI impI)
      fix k assume k: "cursor w \<le> k \<and> k < cursor (snd y) \<and> wire w k = Undecodable"
      then have "k \<noteq> cursor w" using t by auto
      with k have "Suc (cursor w) \<le> k" by simp
      with ih k show "Suc k = cursor (snd y) \<and> fst y = Inl UnicodeDecodeError" by blast
    qed
  qed
qed

lemma acquire_stops_at_undecodable:
  "acquire parse budget retry w = Some y \<Longrightarrow>
     \<forall>k. cursor w \<le> k \<and> k < cursor (snd (snd y)) \<and> wire w k = Undecodable
         \<longrightarrow> Suc k = cursor (snd (snd y)) \<and> fst y = Raised UnicodeDecodeError"
proof (induction rule: acquire.raw_induct[rotated 1, consumes 1])
  case (1 acquire parse budget retry w y)
  show ?case
  proof (cases "retry < budget \<and> wire w (cursor w) \<noteq> Undecodable")
    case False
    then show ?thesis using 1(2)
      by (auto simp: read_decoded_def readline_def decode_utf8_def less_Suc_eq
               split: if_splits rawline.splits)
  next
    case True
    then obtain t where t: "wire w (cursor w) = Encoded t" by (cases "wire w (cursor w)") auto
    let ?w1 = "w\<lparr>cursor := cursor w + 1, in_waiting := in_waiting w - 1\<rparr>"
    from 1(2) True t obtain res w2 where pr: "parse_retry parse t ?w1 = Some (res, w2)"
      by (auto simp: read_decoded_def readline_def decode_utf8_def split: option.splits)
    from parse_retry_frame[OF pr] have fr: "wire w2 = wire w" "cursor w < cursor w2"
      by simp_all
    from parse_retry_stops_at_undecodable[OF pr]
    have inner: "\<forall>k. Suc (cursor w) \<le> k \<and> k < cursor w2 \<and> wire w k = Undecodable
         \<longrightarrow> Suc k = cursor w2 \<and> res = Inl UnicodeDecodeError" by simp
    show ?thesis
    proof (cases "\<exists>s. res = Inr s \<and> sentence_type s \<noteq> ''GGA''")
      case False
      then have y: "snd (snd y) = w2" "res = Inl UnicodeDecodeError \<longrightarrow> fst y = Raised UnicodeDecodeError"
        using 1(2) True t pr
        by (auto simp: read_decoded_def readline_def decode_utf8_def split: sum.splits if_splits)
      show ?thesis
      proof (intro allI impI)
        fix k assume k: "cursor w \<le> k \<and> k < cursor (snd (snd y)) \<and> wire w k = Undecodable"
        then have "k \<noteq> cursor w" using t by auto
        with k have "Suc (cursor w) \<le> k" by simp
        with inner k y show "Suc k = cursor (snd (snd y)) \<and> fst y = Raised UnicodeDecodeError"
          by auto
      qed
    next
      case yes: True
      then have "acquire parse budget (retry + 1) w2 = Some y" using 1(2) True t pr
        by (auto simp: read_decoded_def readline_def decode_utf8_def split: sum.splits if_splits)
      from 1(1)[OF this] have ih: "\<forall>k. cursor w2 \<le> k \<and> k < cursor (snd (snd y)) \<and> wire w k = Undecodable
         \<longrightarrow> Suc k = cursor (snd (snd y)) \<and> fst y = Raised UnicodeDecodeError"
        using fr by simp
      show ?thesis
      proof (intro allI impI)
        fix k assume k: "cursor w \<le> k \<and> k < cursor (snd (snd y)) \<and> wire w k = Undecodable"
        then have "k \<noteq> cursor w" using t by auto
        with k have k1: "Suc (cursor w) \<le> k" by simp
        have "\<not> k < cursor w2"
        proof
          assume "k < cursor w2"
          with inner k k1 have "res = Inl UnicodeDecodeError" by blast
          with yes show False by auto
        qed
        then have "cursor w2 \<le> k" by simp
        with ih k show "Suc k = cursor (snd (snd y)) \<and> fst y = Raised UnicodeDecodeError" by blast
      qed
    qed
  qed
qed

lemma parse_retry_total:
  "k - cursor w = n \<Longrightarrow> cursor w \<le> k \<Longrightarrow> wire w k = Undecodable \<Longrightarrow>
   \<exists>y. parse_retry parse line w = Some y \<and> cursor (snd y) \<le> Suc k"
proof (induction n arbitrary: w line)
  case 0
  then have here: "wire w (cursor w) = Undecodable" by simp
  show ?case
  proof (cases "parse line")
    case (Inr s)
    then show ?thesis using 0 by (simp add: parse_retry_ok)
  next
    case (Inl e)
    then show ?thesis using 0 here
      by (cases "e = ParseError") (simp_all add: parse_retry_raise parse_retry_undecodable advance_def)
  qed
next
  case (Suc n)
  show ?case
  proof (cases "parse line")
    case (Inr s)
    then show ?thesis using Suc.prems by (simp add: parse_retry_ok)
  next
    case (Inl e)
    show ?thesis
    proof (cases "e = ParseError")
      case False
      then show ?thesis using Inl Suc.prems by (simp add: parse_retry_raise)
    next
      case True
      show ?thesis
      proof (cases "wire w (cursor w)")
        case Undecodable
        then show ?thesis using Inl True Suc.prems
          by (simp add: parse_retry_undecodable advance_def)
      next
        case (Encoded t)
        let ?w1 = "advance (w\<lparr>parse_log := parse_log w @ [line]\<rparr>)"
        have "\<exists>y. parse_retry parse t ?w1 = Some y \<and> cursor (snd y) \<le> Suc k"
          by (rule Suc.IH) (use Suc.prems in \<open>simp_all add: advance_def\<close>)
        then show ?thesis using Inl True Encoded by (simp add: parse_retry_next)
      qed
    qed
  qed
qed

lemma acquire_total:
  "cursor w \<le> k \<Longrightarrow> wire w k = Undecodable \<Longrightarrow>
   \<exists>y. acquire parse budget retry w = Some y \<and> cursor (snd (snd y)) \<le> Suc k"
proof (induction "k - cursor w" arbitrary: w retry rule: less_induct)
  case less
  show ?case
  proof (cases "retry < budget")
    case False
    then show ?thesis using less.prems by (simp add: acquire_exhausted)
  next
    case r: True
    show ?thesis
    proof (cases "wire w (cursor w)")
      case Undecodable
      then show ?thesis using r less.prems by (simp add: acquire_undecodable advance_def)
    next
      case (Encoded t)
      then have "cursor w \<noteq> k" using less.prems by auto
      then have lt: "cursor w < k" using less.prems by simp
      have "\<exists>y. parse_retry parse t (advance w) = Some y \<and> cursor (snd y) \<le> Suc k"
        by (rule parse_retry_total [OF refl]) (use lt less.prems in \<open>simp_all add: advance_def\<close>)
      then obtain res w2 where pr: "parse_retry parse t (advance w) = Some (res, w2)"
        and c2: "cursor w2 \<le> Suc k" by auto
      from parse_retry_frame [OF pr] have fr: "wire w2 = wire w" "cursor w < cursor w2"
        by (simp_all add: advance_def)
      show ?thesis
      proof (cases "\<exists>s. res = Inr s \<and> sentence_type s \<noteq> ''GGA''")
        case False
        then show ?thesis using pr c2
          by (auto simp: acquire_unfold_read [OF r Encoded] split: sum.splits)
      next
        case True
        then obtain s where s: "res = Inr s" "sentence_type s \<noteq> ''GGA''" by blast
        have "cursor w2 \<noteq> Suc k"
        proof
          assume "cursor w2 = Suc k"
          with parse_retry_stops_at_undecodable [OF pr, rule_format, of k] lt less.prems
          have "res = Inl UnicodeDecodeError" by (simp add: advance_def)
          with s show False by simp
        qed
        with c2 have le: "cursor w2 \<le> k" by simp
        have "\<exists>y. acquire parse budget (retry + 1) w2 = Some y \<and> cursor (snd (snd y)) \<le> Suc k"
          by (rule less.hyps) (use le fr less.prems in auto)
        then show ?thesis using pr s by (simp add: acquire_unfold_read [OF r Encoded])
      qed
    qed
  qed
qed

lemma flush_serial_keeps_wire:
  "flush_serial w = Some (r, w1) \<Longrightarrow> wire w1 = wire w"
  using flush_serial_returns [of w "(r, w1)"] by auto

lemma get_next_location_stops_at_undecodable:
  assumes fl: "flush_serial w = Some (Inr (), w1)"
    and run: "get_next_location_within budget parse w = Some (res, w')"
    and k: "cursor w1 \<le> k" "k < cursor w'" "wire w k = Undecodable"
  shows "Suc k = cursor w' \<and> res = Inl UnicodeDecodeError"
proof -
  from run fl obtain ex r where
    acq: "acquire parse budget 0 w1 = Some (ex, r, w')"
    and res: "ex = Raised UnicodeDecodeError \<longrightarrow> res = Inl UnicodeDecodeError"
    by (auto simp: get_next_location_within_def split: option.splits loop_exit.splits)
  have "wire w1 k = Undecodable" using k flush_serial_keeps_wire [OF fl] by simp
  with acquire_stops_at_undecodable [OF acq, rule_format, of k] k
  have "Suc k = cursor w' \<and> ex = Raised UnicodeDecodeError" by simp
  with res show ?thesis by simp
qed

lemma get_next_location_ends_at_undecodable:
  assumes fl: "flush_serial w = Some (Inr (), w1)"
    and k: "cursor w1 \<le> k" "wire w k = Undecodable"
  shows "\<exists>res w'. get_next_location_within budget parse w = Some (res, w') \<and> cursor w' \<le> Suc k"
proof -
  have "wire w1 k = Undecodable" using k flush_serial_keeps_wire [OF fl] by simp
  from acquire_total [OF k(1) this, of parse budget 0] obtain ex r w' where
    "acquire parse budget 0 w1 = Some (ex, r, w')" "cursor w' \<le> Suc k" by auto
  then show ?thesis using fl
    by (cases ex) (auto simp: get_next_location_within_def)
qed

lemma run_until_undecodable:
  "get_next_location_within 100 scripted_parse
     (script [Encoded rmc_line, Encoded rmc_line, Encoded short_rmc_line, Undecodable]) =
   Some (Inl UnicodeDecodeError,
         (script [Encoded rmc_line, Encoded rmc_line, Encoded short_rmc_line, Undecodable])
            \<lparr>cursor := 4, parse_log := [rmc_line, short_rmc_line]\<rparr>)"
  by (simp add: run script_def)

text \<open>
  C3, as stated, fails: when the chunk read after the flush does not decode,
  \<^verbatim>\<open>get_next_location\<close> raises \<^verbatim>\<open>UnicodeDecodeError\<close> to its caller.
\<close>
theorem decode_error_surfaces_counterexample:
  "get_next_location scripted_parse (script [Encoded rmc_line, Undecodable]) =
     Some (Inl UnicodeDecodeError, (script [Encoded rmc_line, Undecodable])\<lparr>cursor := 2\<rparr>)"
  by (simp add: run script_def)

text \<open>
  C3, amended. A \<^verbatim>\<open>UnicodeDecodeError\<close> raised while \<^verbatim>\<open>flush_serial\<close> decodes a chunk is
  caught there, and \<^verbatim>\<open>flush_serial\<close> never raises. Nothing in \<^verbatim>\<open>get_next_location\<close>
  catches it, in any turn of the acquisition loop: when a chunk that does not decode lies
  ahead after the flush, the call ends at that chunk at the latest, and whenever it has
  read such a chunk, at the top of the loop or after a \<^verbatim>\<open>ParseError\<close>, that chunk is the
  last it read and the call raises the error to its caller. The loop of
  \<^verbatim>\<open>print-gps-data\<close> raises it as well.
\<close>

theorem decode_errors_caught_in_flush_only:
  "(\<forall>r w'. flush_serial w = Some (r, w') \<or> print_flush_serial w = Some (r, w') \<longrightarrow> r = Inr ())
   \<and> (\<forall>w1 res w'. flush_serial w = Some (Inr (), w1)
          \<and> get_next_location_within budget parse w = Some (res, w')
        \<longrightarrow> (\<forall>k. cursor w1 \<le> k \<and> k < cursor w' \<and> wire w k = Undecodable
               \<longrightarrow> Suc k = cursor w' \<and> res = Inl UnicodeDecodeError))
   \<and> (\<forall>w1 k. flush_serial w = Some (Inr (), w1) \<and> cursor w1 \<le> k \<and> wire w k = Undecodable
        \<longrightarrow> (\<exists>res w'. get_next_location_within budget parse w = Some (res, w')
                     \<and> cursor w' \<le> Suc k))
   \<and> (\<forall>ex r w'. acquire parse budget retry w = Some (ex, r, w')
        \<longrightarrow> (\<forall>k. cursor w \<le> k \<and> k < cursor w' \<and> wire w k = Undecodable
               \<longrightarrow> Suc k = cursor w' \<and> ex = Raised UnicodeDecodeError))
   \<and> (\<forall>w1. flush_serial w = Some (Inr (), w1) \<and> wire w1 (cursor w1) = Undecodable \<and> 0 < budget
        \<longrightarrow> get_next_location_within budget parse w = Some (Inl UnicodeDecodeError, advance w1))
   \<and> (parse line = Inl ParseError \<and> wire w (cursor w) = Undecodable
        \<longrightarrow> parse_retry parse line w =
            Some (Inl UnicodeDecodeError, advance (w\<lparr>parse_log := parse_log w @ [line]\<rparr>)))
   \<and> (wire w (cursor w) = Undecodable \<longrightarrow> print_iteration w = (Inl UnicodeDecodeError, advance w))"
proof (intro conjI allI impI)
  fix r w' assume "flush_serial w = Some (r, w') \<or> print_flush_serial w = Some (r, w')"
  then show "r = Inr ()"
    using flush_serial_returns [of w "(r, w')"] print_flush_serial_returns [of w "(r, w')"]
    by auto
next
  fix w1 res w' k
  assume "flush_serial w = Some (Inr (), w1) \<and> get_next_location_within budget parse w = Some (res, w')"
    and "cursor w1 \<le> k \<and> k < cursor w' \<and> wire w k = Undecodable"
  then have "Suc k = cursor w' \<and> res = Inl UnicodeDecodeError"
    using get_next_location_stops_at_undecodable [of w w1 budget parse res w' k] by blast
  then show "Suc k = cursor w'" "res = Inl UnicodeDecodeError" by simp_all
next
  fix w1 k
  assume "flush_serial w = Some (Inr (), w1) \<and> cursor w1 \<le> k \<and> wire w k = Undecodable"
  then show "\<exists>res w'. get_next_location_within budget parse w = Some (res, w') \<and> cursor w' \<le> Suc k"
    using get_next_location_ends_at_undecodable [of w w1 k budget parse] by blast
next
  fix ex r w' k
  assume "acquire parse budget retry w = Some (ex, r, w')"
    and "cursor w \<le> k \<and> k < cursor w' \<and> wire w k = Undecodable"
  then have "Suc k = cursor w' \<and> ex = Raised UnicodeDecodeError"
    using acquire_stops_at_undecodable [of parse budget retry w "(ex, r, w')", rule_format, of k]
    by simp
  then show "Suc k = cursor w'" "ex = Raised UnicodeDecodeError" by simp_all
next
  fix w1 assume "flush_serial w = Some (Inr (), w1) \<and> wire w1 (cursor w1) = Undecodable \<and> 0 < budget"
  then show "get_next_location_within budget parse w = Some (Inl UnicodeDecodeError, advance w1)"
    by (simp add: get_next_location_within_def acquire_undecodable)
next
  assume "parse line = Inl ParseError \<and> wire w (cursor w) = Undecodable"
  then show "parse_retry parse line w =
            Some (Inl UnicodeDecodeError, advance (w\<lparr>parse_log := parse_log w @ [line]\<rparr>))"
    by (simp add: parse_retry_undecodable)
next
  assume "wire w (cursor w) = Undecodable"
  then show "print_iteration w = (Inl UnicodeDecodeError, advance w)"
    by (simp add: print_iteration_def read_decoded_def readline_def decode_utf8_def advance_def)
qed

theorem decode_errors_caught_in_flush_only_witness:
  "flush_serial (script [Encoded rmc_line, Encoded rmc_line, Encoded short_rmc_line, Undecodable]) =
     Some (Inr (), (script [Encoded rmc_line, Encoded rmc_line, Encoded short_rmc_line, Undecodable])
                      \<lparr>cursor := 1\<rparr>)
   \<and> get_next_location_within 100 scripted_parse
       (script [Encoded rmc_line, Encoded rmc_line, Encoded short_rmc_line, Undecodable]) =
     Some (Inl UnicodeDecodeError,
           (script [Encoded rmc_line, Encoded rmc_line, Encoded short_rmc_line, Undecodable])
              \<lparr>cursor := 4, parse_log := [rmc_line, short_rmc_line]\<rparr>)
   \<and> (\<exists>res w'. get_next_location_within 100 scripted_parse
                 (script [Encoded rmc_line, Encoded rmc_line, Encoded short_rmc_line, Undecodable]) =
                   Some (res, w') \<and> cursor w' \<le> 4 \<and> res = Inl UnicodeDecodeError)
   \<and> parse_retry scripted_parse short_rmc_line (script [Undecodable]) =
       Some (Inl UnicodeDecodeError, (script [Undecodable])\<lparr>cursor := 1, parse_log := [short_rmc_line]\<rparr>)
   \<and> print_iteration (script [Undecodable]) = (Inl UnicodeDecodeError, (script [Undecodable])\<lparr>cursor := 1\<rparr>)"
proof -
  let ?w = "script [Encoded rmc_line, Encoded rmc_line, Encoded short_rmc_line, Undecodable]"
  let ?w' = "?w\<lparr>cursor := 4, parse_log := [rmc_line, short_rmc_line]\<rparr>"
  let ?u = "script [Undecodable]"
  have fl: "flush_serial ?w = Some (Inr (), ?w\<lparr>cursor := 1\<rparr>)"
    by (simp add: run script_def)
  have bad: "cursor (?w\<lparr>cursor := 1\<rparr>) \<le> 3 \<and> wire ?w 3 = Undecodable"
    by (simp add: script_def)
  from decode_errors_caught_in_flush_only [of ?w 100 scripted_parse 0 short_rmc_line] fl bad
  obtain res w' where run: "get_next_location_within 100 scripted_parse ?w = Some (res, w')"
    and le: "cursor w' \<le> Suc 3" by blast
  from run run_until_undecodable have eq: "res = Inl UnicodeDecodeError" "w' = ?w'" by simp_all
  have k: "cursor (?w\<lparr>cursor := 1\<rparr>) \<le> 3 \<and> 3 < cursor w' \<and> wire ?w 3 = Undecodable"
    using eq by (simp add: script_def)
  from decode_errors_caught_in_flush_only [of ?w 100 scripted_parse 0 short_rmc_line] fl run k
  have raised: "Suc 3 = cursor w' \<and> res = Inl UnicodeDecodeError" by blast
  have h3: "scripted_parse short_rmc_line = Inl ParseError \<and> wire ?u (cursor ?u) = Undecodable"
    by (simp add: script_def)
  have h4: "wire ?u (cursor ?u) = Undecodable" by (simp add: script_def)
  from decode_errors_caught_in_flush_only [of ?u 100 scripted_parse 0 short_rmc_line] h3 h4
  have b: "parse_retry scripted_parse short_rmc_line ?u =
            Some (Inl UnicodeDecodeError, advance (?u\<lparr>parse_log := parse_log ?u @ [short_rmc_line]\<rparr>))"
     and c: "print_iteration ?u = (Inl UnicodeDecodeError, advance ?u)" by blast+
  have ex: "\<exists>res w'. get_next_location_within 100 scripted_parse ?w = Some (res, w')
              \<and> cursor w' \<le> 4 \<and> res = Inl UnicodeDecodeError"
    using run le raised by (intro exI [of _ res] exI [of _ w']) simp
  show ?thesis using fl run_until_undecodable ex b c by (simp add: advance_def script_def)
qed

text \<open>
  C7, as stated, fails: \<^verbatim>\<open>get_next_location\<close> hands the parser the line as decoded, with
  its carriage return and line feed.
\<close>
theorem parser_gets_unstripped_line_counterexample:
  "get_next_location scripted_parse (script [Encoded rmc_line, Encoded (gga_line @ crlf)]) =
     Some (Inr \<lparr>lat = 481173 / 10000, lon = 691 / 60, num_satellites = PyStr ''08''\<rparr>,
           (script [Encoded rmc_line, Encoded (gga_line @ crlf)])
              \<lparr>cursor := 2, parse_log := [gga_line @ crlf]\<rparr>)
   \<and> strip (gga_line @ crlf) \<noteq> gga_line @ crlf
   \<and> isspace (last (gga_line @ crlf))"
  by (simp add: run_rmc_then_gga_crlf) (simp add: crlf_def isspace_def)

text \<open>
  C7, amended. A line printed by the loop of \<^verbatim>\<open>print-gps-data\<close> is the decoded line
  stripped: it is not empty and has no whitespace at either end; a line that is empty once
  stripped is not printed. \<^verbatim>\<open>get_next_location\<close> strips nothing: the lines it hands to
  the parser are the texts of the chunks it read, as decoded and in order.
\<close>
theorem lines_stripped_when_printed_not_when_parsed:
  "(wire w (cursor w) = Encoded t \<and> strip t \<noteq> [] \<longrightarrow>
       print_iteration w = (Inr (), (advance w)\<lparr>stdout := stdout w @ [strip t]\<rparr>)
       \<and> \<not> isspace (hd (strip t)) \<and> \<not> isspace (last (strip t)))
   \<and> (wire w (cursor w) = Encoded t \<and> strip t = [] \<longrightarrow> print_iteration w = (Inr (), advance w))
   \<and> (acquire parse budget retry w = Some (ex, r, w') \<longrightarrow>
       parse_log w' = parse_log w @ texts (chunks w (cursor w')))"
  using print_iteration_prints [of w t] print_iteration_silent [of w t] strip_clean [of t]
    acquire_hands_over_verbatim [of parse budget retry w ex r w']
  by blast

theorem lines_stripped_when_printed_not_when_parsed_witness:
  "print_iteration (script [Encoded (gga_line @ crlf)]) =
     (Inr (), (script [Encoded (gga_line @ crlf)])\<lparr>cursor := 1, stdout := [gga_line]\<rparr>)
   \<and> print_iteration (script [Encoded crlf]) = (Inr (), (script [Encoded crlf])\<lparr>cursor := 1\<rparr>)
   \<and> parse_log ((script [Encoded (gga_line @ crlf)])\<lparr>cursor := 1, parse_log := [gga_line @ crlf]\<rparr>)
       = texts (chunks (script [Encoded (gga_line @ crlf)]) 1)"
proof -
  let ?w = "script [Encoded (gga_line @ crlf)]"
  let ?e = "script [Encoded crlf]"
  have h1: "wire ?w (cursor ?w) = Encoded (gga_line @ crlf) \<and> strip (gga_line @ crlf) \<noteq> []"
    by (simp add: script_def)
  have h2: "wire ?e (cursor ?e) = Encoded crlf \<and> strip crlf = []"
    by (simp add: script_def)
  have h3: "acquire scripted_parse 100 0 ?w =
      Some (Returned \<lparr>lat = 481173 / 10000, lon = 691 / 60, num_satellites = PyStr ''08''\<rparr>, 0,
            ?w\<lparr>cursor := 1, parse_log := [gga_line @ crlf]\<rparr>)"
    by (simp add: run script_def gga_location_gga)
  from lines_stripped_when_printed_not_when_parsed
         [of ?w "gga_line @ crlf" scripted_parse 100 0 _ _ "?w\<lparr>cursor := 1, parse_log := [gga_line @ crlf]\<rparr>"] h1 h3
  have a: "print_iteration ?w = (Inr (), (advance ?w)\<lparr>stdout := stdout ?w @ [strip (gga_line @ crlf)]\<rparr>)"
    and c: "parse_log (?w\<lparr>cursor := 1, parse_log := [gga_line @ crlf]\<rparr>) =
             parse_log ?w @ texts (chunks ?w (cursor (?w\<lparr>cursor := 1, parse_log := [gga_line @ crlf]\<rparr>)))"
    by blast+
  from lines_stripped_when_printed_not_when_parsed [of ?e crlf] h2
  have b: "print_iteration ?e = (Inr (), advance ?e)" by blast
  show ?thesis using a b c by (simp add: advance_def script_def)
qed

lemma split_dm_nonneg: "split_dm dm = Some (d, m) \<Longrightarrow> 0 \<le> m"
  by (auto simp: split_dm_def Let_def split: if_splits)

lemma gga_location_converts:
  "split_dm (nmea_lat s) = Some (d1, m1) \<Longrightarrow> split_dm (nmea_lon s) = Some (d2, m2) \<Longrightarrow>
   gga_location s =
     Inr \<lparr>lat = (if lat_dir s = ''S'' then - (real d1 + m1 / 60) else real d1 + m1 / 60),
          lon = (if lon_dir s = ''W'' then - (real d2 + m2 / 60) else real d2 + m2 / 60),
          num_satellites = PyStr (num_sats s)\<rparr>"
  by (simp add: gga_location_def dm_to_sd_def LatLon_new_def)

lemma dm_to_sd_nonneg: "dm_to_sd dm = Inr x \<Longrightarrow> 0 \<le> x"
  by (auto simp: dm_to_sd_def split: option.splits dest: split_dm_nonneg)

lemma gga_location_inverts:
  assumes g: "gga_location s = Inr ll"
  shows "\<exists>a b. dm_to_sd (nmea_lat s) = Inr a \<and> dm_to_sd (nmea_lon s) = Inr b \<and> 0 \<le> a \<and> 0 \<le> b
        \<and> lat ll = (if lat_dir s = ''S'' then - a else a)
        \<and> lon ll = (if lon_dir s = ''W'' then - b else b)
        \<and> num_satellites ll = PyStr (num_sats s)"
proof -
  from g obtain a where a: "dm_to_sd (nmea_lat s) = Inr a"
    by (auto simp: gga_location_def split: sum.splits)
  from g a obtain b where b: "dm_to_sd (nmea_lon s) = Inr b"
    by (auto simp: gga_location_def split: sum.splits)
  from g a b have "ll = \<lparr>lat = (if lat_dir s = ''S'' then - a else a),
                          lon = (if lon_dir s = ''W'' then - b else b),
                          num_satellites = PyStr (num_sats s)\<rparr>"
    by (auto simp: gga_location_def LatLon_new_def)
  then have "lat ll = (if lat_dir s = ''S'' then - a else a)"
    "lon ll = (if lon_dir s = ''W'' then - b else b)" "num_satellites ll = PyStr (num_sats s)"
    by simp_all
  with a b dm_to_sd_nonneg [OF a] dm_to_sd_nonneg [OF b] show ?thesis by blast
qed

lemma acquire_returns_gga:
  "acquire parse budget retry w = Some (Returned ll, r, w') \<Longrightarrow>
   parse_log w' \<noteq> [] \<and>
   (\<exists>s. parse (last (parse_log w')) = Inr s \<and> sentence_type s = ''GGA'' \<and> gga_location s = Inr ll)"
  using acquire_returned [of parse budget retry w "(Returned ll, r, w')" ll] by simp

lemma split_dm_examples:
  "split_dm ''3746.2900'' = Some (37, 462900 / 10000)"
  "split_dm ''12225.1000'' = Some (122, 251000 / 10000)"
  "split_dm ''4807.038'' = Some (48, 7038 / 1000)"
  "split_dm ''01131.000'' = Some (11, 31000 / 1000)"
  "split_dm ''9060.000'' = Some (90, 60000 / 1000)"
  by (simp_all add: split_dm_def is_digit_def decimal_value_def digit_value_def)

text \<open>
  C4. For a GGA sentence whose coordinate fields have the degrees and minutes format, each
  coordinate is converted to degrees + minutes/60, a value that is not negative; then the
  latitude is negated exactly when the direction is S and the longitude exactly when it is
  W. The directions take no part in the conversion. Every fix the acquisition loop returns
  is this conversion of the GGA sentence parsed last.
\<close>
theorem hemisphere_conversion:
  "(split_dm (nmea_lat s) = Some (d1, m1) \<and> split_dm (nmea_lon s) = Some (d2, m2) \<longrightarrow>
      gga_location s =
        Inr \<lparr>lat = (if lat_dir s = ''S'' then - (real d1 + m1 / 60) else real d1 + m1 / 60),
             lon = (if lon_dir s = ''W'' then - (real d2 + m2 / 60) else real d2 + m2 / 60),
             num_satellites = PyStr (num_sats s)\<rparr>
      \<and> 0 \<le> real d1 + m1 / 60 \<and> 0 \<le> real d2 + m2 / 60)
   \<and> (acquire parse budget retry w = Some (Returned ll, r, w') \<longrightarrow>
        (\<exists>s'. parse (last (parse_log w')) = Inr s' \<and> sentence_type s' = ''GGA''
              \<and> gga_location s' = Inr ll))"
  using gga_location_converts [of s d1 m1 d2 m2] split_dm_nonneg [of "nmea_lat s" d1 m1]
    split_dm_nonneg [of "nmea_lon s" d2 m2] acquire_returns_gga [of parse budget retry w ll r w']
  by simp

theorem hemisphere_conversion_witness:
  "gga_location south_west_sentence =
     Inr \<lparr>lat = - (37 + 46.29 / 60), lon = - (122 + 25.1 / 60), num_satellites = PyStr ''05''\<rparr>
   \<and> gga_location gga_sentence =
     Inr \<lparr>lat = 48 + 7.038 / 60, lon = 11 + 31 / 60, num_satellites = PyStr ''08''\<rparr>
   \<and> - (37 + 46.29 / 60) = (- 37.7715 :: real)"
proof -
  have sw: "split_dm (nmea_lat south_west_sentence) = Some (37, 462900 / 10000)
          \<and> split_dm (nmea_lon south_west_sentence) = Some (122, 251000 / 10000)"
    by (simp add: south_west_sentence_def split_dm_examples)
  have ne: "split_dm (nmea_lat gga_sentence) = Some (48, 7038 / 1000)
          \<and> split_dm (nmea_lon gga_sentence) = Some (11, 31000 / 1000)"
    by (simp add: gga_sentence_def split_dm_examples)
  from hemisphere_conversion [of south_west_sentence 37 "462900 / 10000" 122 "251000 / 10000"] sw
  have a: "gga_location south_west_sentence =
        Inr \<lparr>lat = (if lat_dir south_west_sentence = ''S'' then - (real 37 + (462900 / 10000) / 60)
                     else real 37 + (462900 / 10000) / 60),
             lon = (if lon_dir south_west_sentence = ''W'' then - (real 122 + (251000 / 10000) / 60)
                    else real 122 + (251000 / 10000) / 60),
             num_satellites = PyStr (num_sats south_west_sentence)\<rparr>" by blast
  from hemisphere_conversion [of gga_sentence 48 "7038 / 1000" 11 "31000 / 1000"] ne
  have b: "gga_location gga_sentence =
        Inr \<lparr>lat = (if lat_dir gga_sentence = ''S'' then - (real 48 + (7038 / 1000) / 60)
                     else real 48 + (7038 / 1000) / 60),
             lon = (if lon_dir gga_sentence = ''W'' then - (real 11 + (31000 / 1000) / 60)
                    else real 11 + (31000 / 1000) / 60),
             num_satellites = PyStr (num_sats gga_sentence)\<rparr>" by blast
  show ?thesis
    by (simp add: a b) (simp add: south_west_sentence_def gga_sentence_def)
qed

lemma flush_serial_first:
  assumes "in_waiting w = 0" "wire w (cursor w) = Encoded t" "strip t \<noteq> []"
  shows "flush_serial w = Some (Inr (), w\<lparr>cursor := Suc (cursor w)\<rparr>)"
proof -
  have "flush_serial w = Some (Inr (), w\<lparr>cursor := Suc (cursor w), in_waiting := 0\<rparr>)"
    by (rule flush_serial_finds) (use assms in auto)
  moreover have "w\<lparr>cursor := Suc (cursor w), in_waiting := 0\<rparr> = w\<lparr>cursor := Suc (cursor w)\<rparr>"
    using assms(1) by (cases w) simp
  ultimately show ?thesis by simp
qed

lemma acquire_gga_now:
  "retry < budget \<Longrightarrow> in_waiting w = 0 \<Longrightarrow> wire w (cursor w) = Encoded t \<Longrightarrow> parse t = Inr s
   \<Longrightarrow> sentence_type s = ''GGA'' \<Longrightarrow> gga_location s = Inr ll \<Longrightarrow>
   acquire parse budget retry w =
     Some (Returned ll, retry, w\<lparr>cursor := Suc (cursor w), parse_log := parse_log w @ [t]\<rparr>)"
  by (cases w) (simp add: acquire_unfold_read parse_retry_ok advance_def)

lemma acquire_wrong_then_gga:
  "Suc retry < budget \<Longrightarrow> in_waiting w = 0 \<Longrightarrow> wire w (cursor w) = Encoded l1
   \<Longrightarrow> wrong_type parse l1 \<Longrightarrow> wire w (Suc (cursor w)) = Encoded t \<Longrightarrow> parse t = Inr s
   \<Longrightarrow> sentence_type s = ''GGA'' \<Longrightarrow> gga_location s = Inr ll \<Longrightarrow>
   acquire parse budget retry w =
     Some (Returned ll, Suc retry,
           w\<lparr>cursor := Suc (Suc (cursor w)), parse_log := parse_log w @ [l1, t]\<rparr>)"
  by (cases w)
     (auto simp: acquire_unfold_read parse_retry_ok advance_def wrong_type_def split: sum.splits)

lemma acquire_malformed_then_gga:
  "retry < budget \<Longrightarrow> in_waiting w = 0 \<Longrightarrow> wire w (cursor w) = Encoded l1
   \<Longrightarrow> parse l1 = Inl ParseError \<Longrightarrow> wire w (Suc (cursor w)) = Encoded t \<Longrightarrow> parse t = Inr s
   \<Longrightarrow> sentence_type s = ''GGA'' \<Longrightarrow> gga_location s = Inr ll \<Longrightarrow>
   acquire parse budget retry w =
     Some (Returned ll, retry,
           w\<lparr>cursor := Suc (Suc (cursor w)), parse_log := parse_log w @ [l1, t]\<rparr>)"
  by (cases w)
     (simp add: acquire_unfold_read parse_retry_next [where t = t] parse_retry_ok advance_def)

lemma two_line_scenario:
  assumes "parse gga_line = Inr gga_sentence"
    and "parse l1 = Inl ParseError \<or> wrong_type parse l1"
    and "strip l1 \<noteq> []"
    and "wire w (cursor w) = Encoded l1" and "wire w (Suc (cursor w)) = Encoded gga_line"
    and "in_waiting w = 0" and "2 \<le> budget"
  shows "\<exists>r.
           get_next_location_within budget parse w =
             Some (Inr \<lparr>lat = 48.1173, lon = 691 / 60, num_satellites = PyStr ''08''\<rparr>,
                   w\<lparr>cursor := Suc (Suc (cursor w)), parse_log := parse_log w @ [gga_line]\<rparr>)
         \<and> acquire parse budget 0 w =
             Some (Returned \<lparr>lat = 48.1173, lon = 691 / 60, num_satellites = PyStr ''08''\<rparr>, r,
                   w\<lparr>cursor := Suc (Suc (cursor w)), parse_log := parse_log w @ [l1, gga_line]\<rparr>)"
proof -
  let ?ll = "\<lparr>lat = 481173 / 10000, lon = 691 / 60, num_satellites = PyStr ''08''\<rparr>"
  let ?w1 = "w\<lparr>cursor := Suc (cursor w)\<rparr>"
  have b: "0 < budget" "Suc 0 < budget" using assms(7) by simp_all
  have fl: "flush_serial w = Some (Inr (), ?w1)"
    using assms by (intro flush_serial_first) simp_all
  have "acquire parse budget 0 ?w1 =
          Some (Returned ?ll, 0, ?w1\<lparr>cursor := Suc (cursor ?w1), parse_log := parse_log ?w1 @ [gga_line]\<rparr>)"
    using assms b by (intro acquire_gga_now [where s = gga_sentence]) (simp_all add: gga_location_gga)
  then have whole: "get_next_location_within budget parse w =
             Some (Inr ?ll, w\<lparr>cursor := Suc (Suc (cursor w)), parse_log := parse_log w @ [gga_line]\<rparr>)"
    by (simp add: get_next_location_within_def fl)
  have loop: "\<exists>r. acquire parse budget 0 w =
             Some (Returned ?ll, r,
                   w\<lparr>cursor := Suc (Suc (cursor w)), parse_log := parse_log w @ [l1, gga_line]\<rparr>)"
  proof (cases "parse l1 = Inl ParseError")
    case True
    have "acquire parse budget 0 w = Some (Returned ?ll, 0,
                   w\<lparr>cursor := Suc (Suc (cursor w)), parse_log := parse_log w @ [l1, gga_line]\<rparr>)"
      using assms b True
      by (intro acquire_malformed_then_gga [where s = gga_sentence]) (simp_all add: gga_location_gga)
    then show ?thesis by blast
  next
    case False
    then have "wrong_type parse l1" using assms(2) by simp
    then have "acquire parse budget 0 w = Some (Returned ?ll, Suc 0,
                   w\<lparr>cursor := Suc (Suc (cursor w)), parse_log := parse_log w @ [l1, gga_line]\<rparr>)"
      using assms b
      by (intro acquire_wrong_then_gga [where s = gga_sentence]) (simp_all add: gga_location_gga)
    then show ?thesis by blast
  qed
  from whole loop show ?thesis by simp
qed

text \<open>
  C5. The two lines of the scenario in sequence, a first line that is not a GGA sentence
  and then \<^verbatim>\<open>$GPGGA,123519,4807.038,N,01131.000,E,1,08,0.9,545.4,M,46.9,M,,*47\<close>: with the
  budget 5, and with the 100 of the source, the call returns a fix with latitude 48.1173
  and longitude 11 + 31/60, which is 11.51667 within 1/10000. Its satellite count is the
  text \<^verbatim>\<open>08\<close> of the sentence's field, passed on as the parser delivers it, and not the
  integer 8.
\<close>

theorem scenario_count_is_text:
  "get_next_location_within 5 scripted_parse (script [Encoded short_rmc_line, Encoded gga_line]) =
     Some (Inr \<lparr>lat = 48.1173, lon = 691 / 60, num_satellites = PyStr ''08''\<rparr>,
           (script [Encoded short_rmc_line, Encoded gga_line])\<lparr>cursor := 2, parse_log := [gga_line]\<rparr>)
   \<and> get_next_location scripted_parse (script [Encoded short_rmc_line, Encoded gga_line]) =
     Some (Inr \<lparr>lat = 48.1173, lon = 691 / 60, num_satellites = PyStr ''08''\<rparr>,
           (script [Encoded short_rmc_line, Encoded gga_line])\<lparr>cursor := 2, parse_log := [gga_line]\<rparr>)
   \<and> \<bar>lat \<lparr>lat = 48.1173, lon = 691 / 60, num_satellites = PyStr ''08''\<rparr> - 48.1173\<bar> < 1 / 10 ^ 4
   \<and> \<bar>lon \<lparr>lat = 48.1173, lon = 691 / 60, num_satellites = PyStr ''08''\<rparr> - 11.51667\<bar> < 1 / 10 ^ 4
   \<and> num_satellites \<lparr>lat = 48.1173, lon = 691 / 60, num_satellites = PyStr ''08''\<rparr> \<noteq> PyInt 8"
  using run_rmc_then_gga [of 4] run_rmc_then_gga [of 99]
  by (simp add: get_next_location_def eval_nat_numeral)

lemma run_rmc_then_far_north:
  "get_next_location scripted_parse (script [Encoded rmc_line, Encoded far_north_line])
   = Some (Inr \<lparr>lat = 91, lon = 691 / 60, num_satellites = PyStr ''08''\<rparr>,
       (script [Encoded rmc_line, Encoded far_north_line])
         \<lparr>cursor := 2, parse_log := [far_north_line]\<rparr>)"
  by (simp add: run script_def gga_location_far_north)


lemma wrong_type_scripted [simp]:
  "wrong_type scripted_parse rmc_line" "\<not> wrong_type scripted_parse short_rmc_line"
  "malformed scripted_parse short_rmc_line" "\<not> malformed scripted_parse rmc_line"
  by (simp_all add: wrong_type_def malformed_def)


text \<open>
  C6, as stated, fails: a GGA sentence with the latitude field \<^verbatim>\<open>9060.000\<close>, whose minutes
  are 60, gives a fix with latitude 91.
\<close>
theorem latitude_beyond_pole_counterexample:
  "get_next_location scripted_parse (script [Encoded rmc_line, Encoded far_north_line]) =
     Some (Inr \<lparr>lat = 91, lon = 691 / 60, num_satellites = PyStr ''08''\<rparr>,
           (script [Encoded rmc_line, Encoded far_north_line])
              \<lparr>cursor := 2, parse_log := [far_north_line]\<rparr>)
   \<and> \<lparr>lat = 91, lon = 691 / 60, num_satellites = PyStr ''08''\<rparr> \<noteq> sentinel
   \<and> \<not> lat \<lparr>lat = 91, lon = 691 / 60, num_satellites = PyStr ''08''\<rparr> \<le> 90"
  by (simp add: run_rmc_then_far_north sentinel_def)

text \<open>
  C6, amended. A fix returned by the acquisition loop is the conversion of the GGA sentence
  parsed last, with no range check: its latitude is in [-90, 90] exactly when the
  latitude field converts to at most 90, its longitude in [-180, 180] exactly when the
  longitude field converts to at most 180, and its satellite count is the sentence's
  field, passed on unchanged.
\<close>
theorem fix_range_follows_sentence:
  assumes "acquire parse budget retry w = Some (Returned ll, r, w')"
  shows "\<exists>s a b. parse (last (parse_log w')) = Inr s \<and> sentence_type s = ''GGA''
           \<and> dm_to_sd (nmea_lat s) = Inr a \<and> dm_to_sd (nmea_lon s) = Inr b
           \<and> \<bar>lat ll\<bar> = a \<and> \<bar>lon ll\<bar> = b \<and> num_satellites ll = PyStr (num_sats s)
           \<and> ((- 90 \<le> lat ll \<and> lat ll \<le> 90) \<longleftrightarrow> a \<le> 90)
           \<and> ((- 180 \<le> lon ll \<and> lon ll \<le> 180) \<longleftrightarrow> b \<le> 180)"
proof -
  from acquire_returns_gga [OF assms] obtain s where
    s: "parse (last (parse_log w')) = Inr s" "sentence_type s = ''GGA''" "gga_location s = Inr ll"
    by blast
  from gga_location_inverts [OF s(3)] obtain a b where
    ab: "dm_to_sd (nmea_lat s) = Inr a" "dm_to_sd (nmea_lon s) = Inr b" "0 \<le> a" "0 \<le> b"
        "lat ll = (if lat_dir s = ''S'' then - a else a)"
        "lon ll = (if lon_dir s = ''W'' then - b else b)"
        "num_satellites ll = PyStr (num_sats s)" by blast
  have "\<bar>lat ll\<bar> = a" "\<bar>lon ll\<bar> = b" using ab by (simp_all split: if_splits)
  moreover have "(- 90 \<le> lat ll \<and> lat ll \<le> 90) \<longleftrightarrow> a \<le> 90" using ab by (auto split: if_splits)
  moreover have "(- 180 \<le> lon ll \<and> lon ll \<le> 180) \<longleftrightarrow> b \<le> 180" using ab by (auto split: if_splits)
  ultimately show ?thesis using s ab by auto
qed

theorem fix_range_follows_sentence_witness:
  "acquire scripted_parse 100 0 (script [Encoded far_north_line]) =
     Some (Returned \<lparr>lat = 91, lon = 691 / 60, num_satellites = PyStr ''08''\<rparr>, 0,
           (script [Encoded far_north_line])\<lparr>cursor := 1, parse_log := [far_north_line]\<rparr>)
   \<and> dm_to_sd (nmea_lat far_north_sentence) = Inr 91
   \<and> \<not> (91::real) \<le> 90"
proof -
  let ?w = "script [Encoded far_north_line]"
  let ?w' = "?w\<lparr>cursor := 1, parse_log := [far_north_line]\<rparr>"
  let ?ll = "\<lparr>lat = 91, lon = 691 / 60, num_satellites = PyStr ''08''\<rparr>"
  have run: "acquire scripted_parse 100 0 ?w = Some (Returned ?ll, 0, ?w')"
    by (simp add: run script_def gga_location_far_north)
  from fix_range_follows_sentence [OF run] obtain s a b where
    "scripted_parse (last (parse_log ?w')) = Inr s" "dm_to_sd (nmea_lat s) = Inr a"
    "\<bar>lat ?ll\<bar> = a" by blast
  then have "dm_to_sd (nmea_lat far_north_sentence) = Inr 91" by auto
  with run show ?thesis by simp
qed



text \<open>
  C1. On a connection where every line is an RMC sentence, \<^verbatim>\<open>get_next_location\<close> reads
  one line in \<^verbatim>\<open>flush_serial\<close> and 100 more in its loop, and then does not return the
  sentinel: \<^verbatim>\<open>LatLon(-999, -999)\<close> lacks the third field and raises \<^verbatim>\<open>TypeError\<close>.
\<close>
theorem exhausted_budget_raises_type_error:
  "get_next_location scripted_parse rmc_only =
     Some (Inl TypeError, rmc_only\<lparr>cursor := 101, parse_log := replicate 100 rmc_line\<rparr>)"
proof -
  let ?w1 = "rmc_only\<lparr>cursor := Suc (cursor rmc_only)\<rparr>"
  have fl: "flush_serial rmc_only = Some (Inr (), ?w1)"
    by (rule flush_serial_first [where t = rmc_line]) (simp_all add: rmc_only_def)
  have "acquire scripted_parse 100 0 ?w1 =
         Some (Exhausted, max 0 100,
               ?w1\<lparr>cursor := cursor ?w1 + 100, in_waiting := in_waiting ?w1 - 100,
                    parse_log := parse_log ?w1 @ replicate 100 rmc_line\<rparr>)"
    by (rule acquire_all_wrong [where s = rmc_sentence]) (simp_all add: rmc_only_def)
  then have run: "acquire scripted_parse 100 0 ?w1 =
         Some (Exhausted, 100, rmc_only\<lparr>cursor := 101, parse_log := replicate 100 rmc_line\<rparr>)"
    by (simp add: rmc_only_def)
  show ?thesis
    by (simp add: get_next_location_def get_next_location_within_def fl run LatLon_new_def
            )
qed

lemma far_south_facts [simp]:
  "strip far_south_line = far_south_line"
  "sentence_type far_south_sentence = ''GGA''"
  by (rule strip_id; simp add: far_south_line_def isspace_def)
     (simp add: far_south_sentence_def)

lemma scripted_parse_far_south [simp]: "scripted_parse far_south_line = Inr far_south_sentence"
  by (simp add: scripted_parse_def)
     (simp add: far_south_line_def gga_line_def rmc_line_def far_north_line_def)

lemma gga_location_far_south:
  "gga_location far_south_sentence =
     Inr \<lparr>lat = - 999, lon = 691 / 60, num_satellites = PyStr ''08''\<rparr>"
  by (simp add: gga_location_def far_south_sentence_def dm_to_sd_def split_dm_def is_digit_def
       decimal_value_def digit_value_def LatLon_new_def)

lemma run_rmc_then_far_south:
  "get_next_location scripted_parse (script [Encoded rmc_line, Encoded far_south_line])
   = Some (Inr \<lparr>lat = - 999, lon = 691 / 60, num_satellites = PyStr ''08''\<rparr>,
       (script [Encoded rmc_line, Encoded far_south_line])
         \<lparr>cursor := 2, parse_log := [far_south_line]\<rparr>)"
  by (simp add: run script_def gga_location_far_south)

lemma converted_fix_accepted:
  assumes "gga_location s = Inr ll"
  shows "\<exists>a b. dm_to_sd (nmea_lat s) = Inr a \<and> dm_to_sd (nmea_lon s) = Inr b
           \<and> (coordinates_valid ll \<longleftrightarrow>
                 (lat_dir s = ''S'' \<longrightarrow> a < 999) \<and> (lon_dir s = ''W'' \<longrightarrow> b < 999))"
proof -
  from gga_location_inverts [OF assms] obtain a b where
    ab: "dm_to_sd (nmea_lat s) = Inr a" "dm_to_sd (nmea_lon s) = Inr b" "0 \<le> a" "0 \<le> b"
        "lat ll = (if lat_dir s = ''S'' then - a else a)"
        "lon ll = (if lon_dir s = ''W'' then - b else b)" by blast
  have "coordinates_valid ll \<longleftrightarrow>
          (lat_dir s = ''S'' \<longrightarrow> a < 999) \<and> (lon_dir s = ''W'' \<longrightarrow> b < 999)"
    using ab by (auto simp: coordinates_valid_def split: if_splits)
  with ab show ?thesis by blast
qed

text \<open>
  C9, as stated, fails: not every fix produced by the conversion is accepted. The GGA
  sentence with the latitude field \<^verbatim>\<open>99900.000\<close> and the direction S converts to the
  latitude -999; the test refuses the fix and the loop sends nothing.
\<close>

theorem converted_fix_refused_counterexample:
  "get_next_location scripted_parse (script [Encoded rmc_line, Encoded far_south_line]) =
     Some (Inr \<lparr>lat = - 999, lon = 691 / 60, num_satellites = PyStr ''08''\<rparr>,
           (script [Encoded rmc_line, Encoded far_south_line])
              \<lparr>cursor := 2, parse_log := [far_south_line]\<rparr>)
   \<and> gga_location far_south_sentence =
       Inr \<lparr>lat = - 999, lon = 691 / 60, num_satellites = PyStr ''08''\<rparr>
   \<and> \<not> coordinates_valid \<lparr>lat = - 999, lon = 691 / 60, num_satellites = PyStr ''08''\<rparr>
   \<and> send_iteration scripted_parse (script [Encoded rmc_line, Encoded far_south_line]) =
       Some (Inr (), (script [Encoded rmc_line, Encoded far_south_line])
                        \<lparr>cursor := 2, parse_log := [far_south_line]\<rparr>)"
  by (simp add: run_rmc_then_far_south gga_location_far_south send_iteration_def
        coordinates_valid_def)

text \<open>
  C9, amended. The test of both polling loops accepts a fix if and only if its latitude
  and its longitude are both greater than -999, and the loop of \<^verbatim>\<open>send-gps-data\<close> sends
  a message for the fix \<^verbatim>\<open>get_next_location\<close> returned exactly when the test accepts it.
  The sentinel is refused. A fix produced by the conversion of a sentence is accepted
  exactly when neither the direction is S with a latitude field that converts to 999 or
  more, nor the direction is W with a longitude field that converts to 999 or more; so a
  fix with latitude at least -90 and longitude at least -180 is accepted.
\<close>

theorem validity_test_and_conversion:
  "(coordinates_valid ll \<longleftrightarrow> lat ll > - 999 \<and> lon ll > - 999)
   \<and> \<not> coordinates_valid sentinel
   \<and> (gga_location s = Inr ll \<longrightarrow>
        (\<exists>a b. dm_to_sd (nmea_lat s) = Inr a \<and> dm_to_sd (nmea_lon s) = Inr b
           \<and> (coordinates_valid ll \<longleftrightarrow>
                 (lat_dir s = ''S'' \<longrightarrow> a < 999) \<and> (lon_dir s = ''W'' \<longrightarrow> b < 999))))
   \<and> (- 90 \<le> lat ll \<and> - 180 \<le> lon ll \<longrightarrow> coordinates_valid ll)
   \<and> (get_next_location parse w = Some (Inr ll, w') \<longrightarrow>
        send_iteration parse w =
          Some (Inr (), if coordinates_valid ll then send_message ll w' else w'))"
  using converted_fix_accepted [of s ll]
  by (simp add: coordinates_valid_def sentinel_def send_iteration_def)

theorem validity_test_and_conversion_witness:
  "coordinates_valid \<lparr>lat = 481173 / 10000, lon = 691 / 60, num_satellites = PyStr ''08''\<rparr>
   \<and> send_iteration scripted_parse (script [Encoded short_rmc_line, Encoded gga_line]) =
       Some (Inr (),
         send_message \<lparr>lat = 481173 / 10000, lon = 691 / 60, num_satellites = PyStr ''08''\<rparr>
           ((script [Encoded short_rmc_line, Encoded gga_line])
              \<lparr>cursor := 2, parse_log := [gga_line]\<rparr>))
   \<and> (\<exists>a b. dm_to_sd (nmea_lat gga_sentence) = Inr a \<and> dm_to_sd (nmea_lon gga_sentence) = Inr b
          \<and> (lat_dir gga_sentence = ''S'' \<longrightarrow> a < 999)
          \<and> (lon_dir gga_sentence = ''W'' \<longrightarrow> b < 999))"
proof -
  let ?ll = "\<lparr>lat = 481173 / 10000, lon = 691 / 60, num_satellites = PyStr ''08''\<rparr>"
  let ?w = "script [Encoded short_rmc_line, Encoded gga_line]"
  have range: "- 90 \<le> lat ?ll \<and> - 180 \<le> lon ?ll" by simp
  have conv: "gga_location gga_sentence = Inr ?ll" by (rule gga_location_gga)
  have got: "get_next_location scripted_parse ?w =
               Some (Inr ?ll, ?w\<lparr>cursor := 2, parse_log := [gga_line]\<rparr>)"
    using run_rmc_then_gga [of 99] by (simp add: get_next_location_def)
  from validity_test_and_conversion
         [of ?ll gga_sentence scripted_parse ?w "?w\<lparr>cursor := 2, parse_log := [gga_line]\<rparr>"]
    range conv got
  have v: "coordinates_valid ?ll"
    and c: "\<exists>a b. dm_to_sd (nmea_lat gga_sentence) = Inr a \<and> dm_to_sd (nmea_lon gga_sentence) = Inr b
           \<and> (coordinates_valid ?ll \<longleftrightarrow>
                 (lat_dir gga_sentence = ''S'' \<longrightarrow> a < 999) \<and> (lon_dir gga_sentence = ''W'' \<longrightarrow> b < 999))"
    and snd: "send_iteration scripted_parse ?w =
          Some (Inr (), if coordinates_valid ?ll
                        then send_message ?ll (?w\<lparr>cursor := 2, parse_log := [gga_line]\<rparr>)
                        else ?w\<lparr>cursor := 2, parse_log := [gga_line]\<rparr>)"
    by blast+
  from c v have "\<exists>a b. dm_to_sd (nmea_lat gga_sentence) = Inr a \<and> dm_to_sd (nmea_lon gga_sentence) = Inr b
          \<and> (lat_dir gga_sentence = ''S'' \<longrightarrow> a < 999)
          \<and> (lon_dir gga_sentence = ''W'' \<longrightarrow> b < 999)" by blast
  with v snd show ?thesis by simp
qed

end
